theory Spec2Isabelle
  imports Complex_Main "HOL-Library.Sublist"
begin

section \<open>Strings as code points\<close>

text \<open>
  A Python \<open>str\<close> is a sequence of Unicode code points, and \<open>len\<close> counts code points.
  A string is therefore a list of code points; \<open>U\<close> turns an ASCII literal into one.
\<close>

type_synonym pystr = "nat list"

definition U :: "string \<Rightarrow> pystr" where
  "U s = map of_char s"

section \<open>Floats\<close>

text \<open>
  A Python \<open>float\<close> is an IEEE 754 double: a finite value, an infinity or a NaN. A finite
  float is the real number it denotes (the sign of a zero is not kept: the code never
  divides by a zero, and no comparison tells the two zeros apart). Every arithmetic
  operation returns the exact result rounded to the nearest double, ties to the even
  mantissa: 53 bits of mantissa, the smallest exponent -1022 (below it the spacing stays
  \<open>2 ^ -1074\<close>), and a rounded magnitude of \<open>2 ^ 1024\<close> or more is an infinity.
\<close>

datatype pyfloat = Fin real | PosInf | NegInf | NaN

text \<open>The exponent \<open>e\<close> with \<open>2 ^ e \<le> x < 2 ^ (e + 1)\<close>, found by halving or doubling.\<close>

fun binade :: "nat \<Rightarrow> real \<Rightarrow> int \<Rightarrow> int" where
  "binade n x e =
    (if n = 0 then e
     else if 2 \<le> x then binade (n - 1) (x / 2) (e + 1)
     else if x < 1 then binade (n - 1) (2 * x) (e - 1)
     else e)"

declare binade.simps [simp del]

definition exponent :: "real \<Rightarrow> int" where
  "exponent x = binade 2200 \<bar>x\<bar> 0"

definition pow2 :: "int \<Rightarrow> real" where
  "pow2 k = (if 0 \<le> k then 2 ^ nat k else 1 / 2 ^ nat (- k))"

definition round_even :: "real \<Rightarrow> int" where
  "round_even q =
    (let f = \<lfloor>q\<rfloor>; r = q - of_int f
     in if r < 1 / 2 then f else if 1 / 2 < r then f + 1 else if even f then f else f + 1)"

definition rnd :: "real \<Rightarrow> pyfloat" where
  "rnd x =
    (if x = 0 then Fin 0
     else
       let e = max (exponent x) (- 1022);
           ulp = pow2 (e - 52);
           y = of_int (round_even (x / ulp)) * ulp
       in if 2 ^ 1024 \<le> \<bar>y\<bar> then (if 0 < x then PosInf else NegInf) else Fin y)"

text \<open>\<open>x == 0\<close>, \<open>abs(x)\<close>, \<open>x <= y\<close>, \<open>x - y\<close> and \<open>x / y\<close>.\<close>

fun fl_is_zero :: "pyfloat \<Rightarrow> bool" where
  "fl_is_zero (Fin a) = (a = 0)"
| "fl_is_zero _ = False"

fun fl_abs :: "pyfloat \<Rightarrow> pyfloat" where
  "fl_abs (Fin a) = Fin \<bar>a\<bar>"
| "fl_abs PosInf = PosInf"
| "fl_abs NegInf = PosInf"
| "fl_abs NaN = NaN"

fun fl_le :: "pyfloat \<Rightarrow> pyfloat \<Rightarrow> bool" where
  "fl_le NaN _ = False"
| "fl_le _ NaN = False"
| "fl_le (Fin a) (Fin b) = (a \<le> b)"
| "fl_le NegInf _ = True"
| "fl_le _ PosInf = True"
| "fl_le PosInf _ = False"
| "fl_le _ NegInf = False"

fun fl_sub :: "pyfloat \<Rightarrow> pyfloat \<Rightarrow> pyfloat" where
  "fl_sub NaN _ = NaN"
| "fl_sub _ NaN = NaN"
| "fl_sub (Fin a) (Fin b) = rnd (a - b)"
| "fl_sub PosInf PosInf = NaN"
| "fl_sub NegInf NegInf = NaN"
| "fl_sub PosInf _ = PosInf"
| "fl_sub NegInf _ = NegInf"
| "fl_sub (Fin a) PosInf = NegInf"
| "fl_sub (Fin a) NegInf = PosInf"

text \<open>
  The quotient, for a divisor that is not zero: Python raises \<open>ZeroDivisionError\<close> for a
  zero divisor, and the code divides only by the constant 100 and, in \<open>_prices_match\<close>,
  after its test \<open>precio_sistema == 0\<close> has failed.
\<close>

fun fl_div :: "pyfloat \<Rightarrow> pyfloat \<Rightarrow> pyfloat" where
  "fl_div NaN _ = NaN"
| "fl_div _ NaN = NaN"
| "fl_div (Fin a) (Fin b) = rnd (a / b)"
| "fl_div (Fin a) _ = Fin 0"
| "fl_div PosInf (Fin b) = (if 0 < b then PosInf else NegInf)"
| "fl_div NegInf (Fin b) = (if 0 < b then NegInf else PosInf)"
| "fl_div _ _ = NaN"

section \<open>Objects\<close>

text \<open>The values \<open>json.loads\<close> produces, which are also the values of a \<open>Dict[str, Any]\<close>.\<close>

datatype pyval =
    PNone
  | PBool bool
  | PInt int
  | PFloat pyfloat
  | PStr pystr
  | PList "pyval list"
  | PDict "(pystr \<times> pyval) list"

datatype py_error =
    CapabilityError
  | TypeError
  | OverflowError

text \<open>\<open>str(n)\<close> for an integer.\<close>

fun str_nat :: "nat \<Rightarrow> pystr" where
  "str_nat n = (if n < 10 then [48 + n] else str_nat (n div 10) @ [48 + n mod 10])"

declare str_nat.simps [simp del]

definition str_int :: "int \<Rightarrow> pystr" where
  "str_int i = (if i < 0 then 45 # str_nat (nat (- i)) else str_nat (nat i))"

section \<open>Strings (the methods of \<open>str\<close> the code uses)\<close>

text \<open>
  White space and decimal digits are the tables of the interpreter (Unicode 14): they
  decide \<open>strip\<close>, \<open>\s\<close>, \<open>\d\<close> and \<open>int\<close>. Case mapping and the word characters of
  \<open>\b\<close> are those of the code points below 256, which covers Spanish text; a code
  point from 256 on is taken as caseless and, unless a decimal digit, as not a word
  character.
\<close>

definition is_space :: "nat \<Rightarrow> bool" where
  "is_space c = (if c < 128 then (9 \<le> c \<and> c \<le> 13) \<or> (28 \<le> c \<and> c \<le> 32)
     else c \<in> set [133, 160, 5760, 8192, 8193, 8194, 8195, 8196, 8197, 8198, 8199, 8200,
                     8201, 8202, 8232, 8233, 8239, 8287, 12288])"

definition decimal_zeros :: "nat list" where
  "decimal_zeros = [1632, 1776, 1984, 2406, 2534, 2662, 2790, 2918, 3046, 3174, 3302, 3430,
     3558, 3664, 3792, 3872, 4160, 4240, 6112, 6160, 6470, 6608, 6784, 6800, 6992, 7088, 7232,
     7248, 42528, 43216, 43264, 43472, 43504, 43600, 44016, 65296, 66720, 68912, 69734, 69872,
     69942, 70096, 70384, 70736, 70864, 71248, 71360, 71472, 71904, 72016, 72784, 73040, 73120,
     92768, 92864, 93008, 120782, 120792, 120802, 120812, 120822, 123200, 123632, 125264,
     130032]"

definition digit_value :: "nat \<Rightarrow> nat option" where
  "digit_value c =
    (if c < 128 then (if 48 \<le> c \<and> c \<le> 57 then Some (c - 48) else None)
     else (case filter (\<lambda>z. z \<le> c \<and> c < z + 10) decimal_zeros of
             [] \<Rightarrow> None | z # _ \<Rightarrow> Some (c - z)))"

definition is_digit :: "nat \<Rightarrow> bool" where
  "is_digit c = (digit_value c \<noteq> None)"

definition is_word :: "nat \<Rightarrow> bool" where
  "is_word c =
    (if c < 128 then (48 \<le> c \<and> c \<le> 57) \<or> (65 \<le> c \<and> c \<le> 90) \<or> c = 95 \<or> (97 \<le> c \<and> c \<le> 122)
     else if c < 256 then c \<in> set [170, 178, 179, 181, 185, 186, 188, 189, 190] \<or>
       (192 \<le> c \<and> c \<noteq> 215 \<and> c \<noteq> 247)
     else is_digit c)"

definition lower_cp :: "nat \<Rightarrow> nat" where
  "lower_cp c =
    (if (65 \<le> c \<and> c \<le> 90) \<or> (192 \<le> c \<and> c \<le> 222 \<and> c \<noteq> 215) then c + 32 else c)"

definition upper_cp :: "nat \<Rightarrow> pystr" where
  "upper_cp c =
    (if (97 \<le> c \<and> c \<le> 122) \<or> (224 \<le> c \<and> c \<le> 254 \<and> c \<noteq> 247) then [c - 32]
     else if c = 181 then [924]
     else if c = 223 then [83, 83]
     else if c = 255 then [376]
     else [c])"

definition lower :: "pystr \<Rightarrow> pystr" where
  "lower s = map lower_cp s"

definition upper :: "pystr \<Rightarrow> pystr" where
  "upper s = concat (map upper_cp s)"

definition lstrip :: "pystr \<Rightarrow> pystr" where
  "lstrip s = dropWhile is_space s"

definition rstrip :: "pystr \<Rightarrow> pystr" where
  "rstrip s = rev (dropWhile is_space (rev s))"

definition strip :: "pystr \<Rightarrow> pystr" where
  "strip s = rstrip (lstrip s)"

definition rstrip_chars :: "pystr \<Rightarrow> pystr \<Rightarrow> pystr" where
  "rstrip_chars chars s = rev (dropWhile (\<lambda>c. c \<in> set chars) (rev s))"

definition count_char :: "nat \<Rightarrow> pystr \<Rightarrow> int" where
  "count_char c s = int (length (filter (\<lambda>x. x = c) s))"

function repeat_char :: "nat \<Rightarrow> int \<Rightarrow> pystr" where
  "repeat_char c n = (if n \<le> 0 then [] else c # repeat_char c (n - 1))"
  by pat_completeness auto
termination
  by (relation "measure (\<lambda>(c, n). nat n)") auto

declare repeat_char.simps [simp del]

fun is_prefix :: "pystr \<Rightarrow> pystr \<Rightarrow> bool" where
  "is_prefix [] s = True"
| "is_prefix (p # ps) [] = False"
| "is_prefix (p # ps) (c # cs) = (p = c \<and> is_prefix ps cs)"

fun contains :: "pystr \<Rightarrow> pystr \<Rightarrow> bool" where
  "contains sub [] = (sub = [])"
| "contains sub (c # cs) = (is_prefix sub (c # cs) \<or> contains sub cs)"

section \<open>Regular expressions (the functions of \<open>re\<close> the code uses)\<close>

text \<open>
  A pattern is a term of type \<open>regex\<close>; matching is backtracking in the order of the
  library: the alternatives of a pattern are tried left to right, a greedy repetition
  tries the longest run first and a lazy one the shortest. \<open>match\<close> returns the states
  after every way of matching, first choice first: a state is the text before the
  position (nearest character first), the text after it, and the groups matched so far.
  The flag is \<open>re.IGNORECASE\<close>.
\<close>

datatype cclass = Ch nat | Range nat nat | Space | Digit

datatype regex =
    Atom "cclass list"
  | NotAtom "cclass list"
  | Seq regex regex
  | Alt regex regex
  | Opt regex
  | Star regex
  | Plus regex
  | LazyStar regex
  | Group nat regex
  | Bol
  | Eol
  | WordB
  | Eps

fun in_cclass :: "bool \<Rightarrow> nat \<Rightarrow> cclass \<Rightarrow> bool" where
  "in_cclass ic c (Ch x) = (if ic then lower_cp c = lower_cp x else c = x)"
| "in_cclass ic c (Range lo hi) =
    ((lo \<le> c \<and> c \<le> hi) \<or>
     (ic \<and> ((lo \<le> lower_cp c \<and> lower_cp c \<le> hi) \<or>
             (case upper_cp c of [u] \<Rightarrow> lo \<le> u \<and> u \<le> hi | _ \<Rightarrow> False))))"
| "in_cclass ic c Space = is_space c"
| "in_cclass ic c Digit = is_digit c"

type_synonym mstate = "pystr \<times> pystr \<times> (nat \<times> pystr) list"

definition word_boundary :: "pystr \<Rightarrow> pystr \<Rightarrow> bool" where
  "word_boundary pre rest =
    ((case pre of [] \<Rightarrow> False | c # _ \<Rightarrow> is_word c)
       \<noteq> (case rest of [] \<Rightarrow> False | c # _ \<Rightarrow> is_word c))"

definition remaining :: "mstate \<Rightarrow> nat" where
  "remaining s = length (fst (snd s))"

fun star :: "(mstate \<Rightarrow> mstate list) \<Rightarrow> nat \<Rightarrow> mstate \<Rightarrow> mstate list" where
  "star f 0 s = [s]"
| "star f (Suc n) s =
    concat (map (\<lambda>s'. if remaining s' < remaining s then star f n s' else []) (f s)) @ [s]"

fun lazy_star :: "(mstate \<Rightarrow> mstate list) \<Rightarrow> nat \<Rightarrow> mstate \<Rightarrow> mstate list" where
  "lazy_star f 0 s = [s]"
| "lazy_star f (Suc n) s =
    s # concat (map (\<lambda>s'. if remaining s' < remaining s then lazy_star f n s' else []) (f s))"

primrec match :: "bool \<Rightarrow> regex \<Rightarrow> mstate \<Rightarrow> mstate list" where
  "match ic (Atom cs) = (\<lambda>s.
     case fst (snd s) of [] \<Rightarrow> []
     | c # rest' \<Rightarrow> if list_ex (in_cclass ic c) cs then [(c # fst s, rest', snd (snd s))] else [])"
| "match ic (NotAtom cs) = (\<lambda>s.
     case fst (snd s) of [] \<Rightarrow> []
     | c # rest' \<Rightarrow> if list_ex (in_cclass ic c) cs then [] else [(c # fst s, rest', snd (snd s))])"
| "match ic (Seq p q) = (\<lambda>s. concat (map (match ic q) (match ic p s)))"
| "match ic (Alt p q) = (\<lambda>s. match ic p s @ match ic q s)"
| "match ic (Opt p) = (\<lambda>s. match ic p s @ [s])"
| "match ic (Star p) = (\<lambda>s. star (match ic p) (remaining s) s)"
| "match ic (Plus p) = (\<lambda>s. concat (map (\<lambda>s'. star (match ic p) (remaining s') s') (match ic p s)))"
| "match ic (LazyStar p) = (\<lambda>s. lazy_star (match ic p) (remaining s) s)"
| "match ic (Group k p) = (\<lambda>s.
     map (\<lambda>s'. (fst s', fst (snd s'),
                (k, rev (take (length (fst s') - length (fst s)) (fst s'))) # snd (snd s')))
         (match ic p s))"
| "match ic Bol = (\<lambda>s. if fst s = [] then [s] else [])"
| "match ic Eol = (\<lambda>s. if fst (snd s) = [] \<or> fst (snd s) = [10] then [s] else [])"
| "match ic WordB = (\<lambda>s. if word_boundary (fst s) (fst (snd s)) then [s] else [])"
| "match ic Eps = (\<lambda>s. [s])"

lemma match_apply:
  "match ic (Atom cs) (pre, [], groups) = []"
  "match ic (Atom cs) (pre, c # rest', groups) =
    (if list_ex (in_cclass ic c) cs then [(c # pre, rest', groups)] else [])"
  "match ic (NotAtom cs) (pre, [], groups) = []"
  "match ic (NotAtom cs) (pre, c # rest', groups) =
    (if list_ex (in_cclass ic c) cs then [] else [(c # pre, rest', groups)])"
  "match ic (Seq p q) s = concat (map (match ic q) (match ic p s))"
  "match ic (Alt p q) s = match ic p s @ match ic q s"
  "match ic (Opt p) s = match ic p s @ [s]"
  "match ic (Star p) s = star (match ic p) (remaining s) s"
  "match ic (Plus p) s = concat (map (\<lambda>s'. star (match ic p) (remaining s') s') (match ic p s))"
  "match ic (LazyStar p) s = lazy_star (match ic p) (remaining s) s"
  "match ic (Group k p) s =
     map (\<lambda>s'. (fst s', fst (snd s'),
                (k, rev (take (length (fst s') - length (fst s)) (fst s'))) # snd (snd s')))
         (match ic p s)"
  "match ic Bol s = (if fst s = [] then [s] else [])"
  "match ic Eol s = (if fst (snd s) = [] \<or> fst (snd s) = [10] then [s] else [])"
  "match ic WordB s = (if word_boundary (fst s) (fst (snd s)) then [s] else [])"
  "match ic Eps s = [s]"
  by simp_all

declare match.simps [simp del]

definition lit :: "string \<Rightarrow> regex" where
  "lit s = foldr (\<lambda>c r. Seq (Atom [Ch (of_char c)]) r) s Eps"

definition seqs :: "regex list \<Rightarrow> regex" where
  "seqs rs = foldr Seq rs Eps"

definition alts :: "regex list \<Rightarrow> regex" where
  "alts rs = (case rs of [] \<Rightarrow> Eps | _ \<Rightarrow> foldr Alt (butlast rs) (last rs))"

fun re_search_from :: "bool \<Rightarrow> regex \<Rightarrow> pystr \<Rightarrow> pystr \<Rightarrow> mstate option" where
  "re_search_from ic p pre [] =
     (case match ic p (pre, [], []) of [] \<Rightarrow> None | m # _ \<Rightarrow> Some m)"
| "re_search_from ic p pre (c # cs) =
     (case match ic p (pre, c # cs, []) of
        [] \<Rightarrow> re_search_from ic p (c # pre) cs
      | m # _ \<Rightarrow> Some m)"

definition re_search :: "bool \<Rightarrow> regex \<Rightarrow> pystr \<Rightarrow> mstate option" where
  "re_search ic p s = re_search_from ic p [] s"

definition group :: "mstate \<Rightarrow> nat \<Rightarrow> pystr option" where
  "group m k = map_of (snd (snd m)) k"

function re_sub_from :: "bool \<Rightarrow> regex \<Rightarrow> pystr \<Rightarrow> pystr \<Rightarrow> pystr \<Rightarrow> pystr" where
  "re_sub_from ic p repl pre [] =
    (case match ic p (pre, [], []) of [] \<Rightarrow> [] | _ # _ \<Rightarrow> repl)"
| "re_sub_from ic p repl pre (c # cs) =
    (case match ic p (pre, c # cs, []) of
       [] \<Rightarrow> c # re_sub_from ic p repl (c # pre) cs
     | m # _ \<Rightarrow>
         if remaining m < Suc (length cs)
         then repl @ re_sub_from ic p repl (fst m) (fst (snd m))
         else repl @ c # re_sub_from ic p repl (c # pre) cs)"
  by pat_completeness auto
termination
  by (relation "measure (\<lambda>(ic, p, repl, pre, rest). length rest)") (auto simp: remaining_def)

definition re_sub :: "bool \<Rightarrow> regex \<Rightarrow> pystr \<Rightarrow> pystr \<Rightarrow> pystr" where
  "re_sub ic p repl s = re_sub_from ic p repl [] s"

function re_findall_from ::
  "bool \<Rightarrow> regex \<Rightarrow> pystr \<Rightarrow> pystr \<Rightarrow> (nat \<times> pystr) list list" where
  "re_findall_from ic p pre [] =
    (case match ic p (pre, [], []) of [] \<Rightarrow> [] | m # _ \<Rightarrow> [snd (snd m)])"
| "re_findall_from ic p pre (c # cs) =
    (case match ic p (pre, c # cs, []) of
       [] \<Rightarrow> re_findall_from ic p (c # pre) cs
     | m # _ \<Rightarrow>
         snd (snd m) #
         (if remaining m < Suc (length cs)
          then re_findall_from ic p (fst m) (fst (snd m))
          else re_findall_from ic p (c # pre) cs))"
  by pat_completeness auto
termination
  by (relation "measure (\<lambda>(ic, p, pre, rest). length rest)") (auto simp: remaining_def)

definition re_findall :: "bool \<Rightarrow> regex \<Rightarrow> pystr \<Rightarrow> (nat \<times> pystr) list list" where
  "re_findall ic p s = re_findall_from ic p [] s"

definition ws0 :: regex where "ws0 = Star (Atom [Space])"
definition ws1 :: regex where "ws1 = Plus (Atom [Space])"
definition digits1 :: regex where "digits1 = Plus (Atom [Digit])"

section \<open>The JSON decoder (\<open>json.loads\<close>)\<close>

text \<open>
  The decoder of the standard library, for the grammar it accepts: objects (a repeated
  key keeps its last value), arrays, strings with their escapes, numbers, \<open>true\<close>,
  \<open>false\<close> and \<open>null\<close>. The constants \<open>NaN\<close> and \<open>Infinity\<close> and the recursion limit
  of the interpreter are not modelled; a number with a fraction or an exponent is the
  double nearest to its decimal value. The parser runs on fuel: two nested calls consume
  at least one character, so twice the length of the text is enough.
\<close>

definition dict_get :: "(pystr \<times> pyval) list \<Rightarrow> pystr \<Rightarrow> pyval option" where
  "dict_get d k = map_of d k"

definition dict_set :: "pystr \<Rightarrow> pyval \<Rightarrow> (pystr \<times> pyval) list \<Rightarrow> (pystr \<times> pyval) list" where
  "dict_set k v d =
    (if k \<in> set (map fst d) then map (\<lambda>(k', v'). if k' = k then (k', v) else (k', v')) d
     else d @ [(k, v)])"

definition json_ws :: "nat \<Rightarrow> bool" where
  "json_ws c = (c = 32 \<or> c = 9 \<or> c = 10 \<or> c = 13)"

definition skip_ws :: "pystr \<Rightarrow> pystr" where
  "skip_ws s = dropWhile json_ws s"

definition ascii_digit :: "nat \<Rightarrow> bool" where
  "ascii_digit c = (48 \<le> c \<and> c \<le> 57)"

definition hex_value :: "nat \<Rightarrow> nat option" where
  "hex_value c =
    (if 48 \<le> c \<and> c \<le> 57 then Some (c - 48)
     else if 97 \<le> c \<and> c \<le> 102 then Some (c - 87)
     else if 65 \<le> c \<and> c \<le> 70 then Some (c - 55)
     else None)"

fun hex4 :: "pystr \<Rightarrow> nat option" where
  "hex4 (a # b # c # d # _) =
    (case (hex_value a, hex_value b, hex_value c, hex_value d) of
       (Some x, Some y, Some z, Some w) \<Rightarrow> Some (((x * 16 + y) * 16 + z) * 16 + w)
     | _ \<Rightarrow> None)"
| "hex4 _ = None"

definition simple_escape :: "nat \<Rightarrow> nat option" where
  "simple_escape e =
    (if e = 34 then Some 34 else if e = 92 then Some 92 else if e = 47 then Some 47
     else if e = 98 then Some 8 else if e = 102 then Some 12 else if e = 110 then Some 10
     else if e = 114 then Some 13 else if e = 116 then Some 9 else None)"

text \<open>The low half of a surrogate pair, when the text goes on with one.\<close>

definition low_surrogate :: "pystr \<Rightarrow> nat option" where
  "low_surrogate s =
    (case s of
       b # u # rest \<Rightarrow>
         if b = 92 \<and> u = 117 then
           (case hex4 rest of
              Some lo \<Rightarrow> if 56320 \<le> lo \<and> lo \<le> 57343 then Some lo else None
            | None \<Rightarrow> None)
         else None
     | _ \<Rightarrow> None)"

function scan_string :: "pystr \<Rightarrow> pystr \<Rightarrow> (pystr \<times> pystr) option" where
  "scan_string [] acc = None"
| "scan_string (c # cs) acc =
    (if c = 34 then Some (rev acc, cs)
     else if c = 92 then
       (case cs of
          [] \<Rightarrow> None
        | e # cs' \<Rightarrow>
            if e = 117 then
              (case hex4 cs' of
                 None \<Rightarrow> None
               | Some hi \<Rightarrow>
                   (case (if 55296 \<le> hi \<and> hi \<le> 56319 then low_surrogate (drop 4 cs') else None) of
                      Some lo \<Rightarrow>
                        scan_string (drop 10 cs') ((65536 + (hi - 55296) * 1024 + (lo - 56320)) # acc)
                    | None \<Rightarrow> scan_string (drop 4 cs') (hi # acc)))
            else
              (case simple_escape e of
                 None \<Rightarrow> None
               | Some x \<Rightarrow> scan_string cs' (x # acc)))
     else if c < 32 then None
     else scan_string cs (c # acc))"
  by pat_completeness auto
termination
  by (relation "measure (\<lambda>(s, acc). length s)") auto

text \<open>A number: \<open>(-?(?:0|[1-9]\d*))(\.\d+)?([eE][-+]?\d+)?\<close> over ASCII digits.\<close>

definition nat_of_digits :: "pystr \<Rightarrow> nat" where
  "nat_of_digits ds = foldl (\<lambda>a c. 10 * a + (c - 48)) 0 ds"

definition scan_number :: "pystr \<Rightarrow> (pyval \<times> pystr) option" where
  "scan_number s =
    (let neg = (case s of [] \<Rightarrow> False | c # _ \<Rightarrow> c = 45);
         s1 = (if neg then tl s else s);
         ipart = (case s1 of [] \<Rightarrow> []
                  | c # cs \<Rightarrow> if c = 48 then [c]
                             else if ascii_digit c then c # takeWhile ascii_digit cs else []);
         s2 = drop (length ipart) s1;
         frac = (case s2 of [] \<Rightarrow> []
                 | c # cs \<Rightarrow> if c = 46 then takeWhile ascii_digit cs else []);
         s3 = (if frac = [] then s2 else drop (Suc (length frac)) s2);
         esign = (case s3 of e # sg # _ \<Rightarrow> (e = 101 \<or> e = 69) \<and> (sg = 45 \<or> sg = 43) | _ \<Rightarrow> False);
         eneg = (case s3 of e # sg # _ \<Rightarrow> esign \<and> sg = 45 | _ \<Rightarrow> False);
         edigits = (case s3 of [] \<Rightarrow> []
                    | e # cs \<Rightarrow> if e = 101 \<or> e = 69
                               then takeWhile ascii_digit (if esign then tl cs else cs) else []);
         s4 = (if edigits = [] then s3
               else drop (Suc (length edigits) + (if esign then 1 else 0)) s3);
         sgn = (if neg then - 1 else 1)
     in if ipart = [] then None
        else if frac = [] \<and> edigits = [] then Some (PInt (sgn * int (nat_of_digits ipart)), s4)
        else
          let mant = real (nat_of_digits ipart) + real (nat_of_digits frac) / 10 ^ length frac;
              ex = (if eneg then 1 / 10 ^ nat_of_digits edigits else 10 ^ nat_of_digits edigits)
          in Some (PFloat (rnd (sgn * mant * ex)), s4))"

fun parse_value :: "nat \<Rightarrow> pystr \<Rightarrow> (pyval \<times> pystr) option"
  and parse_array :: "nat \<Rightarrow> pystr \<Rightarrow> pyval list \<Rightarrow> (pyval \<times> pystr) option"
  and parse_object :: "nat \<Rightarrow> pystr \<Rightarrow> (pystr \<times> pyval) list \<Rightarrow> (pyval \<times> pystr) option" where
  "parse_value 0 s = None"
| "parse_value (Suc n) [] = None"
| "parse_value (Suc n) (c # cs) =
    (if c = 34 then
       (case scan_string cs [] of None \<Rightarrow> None | Some (str, rest) \<Rightarrow> Some (PStr str, rest))
     else if c = 123 then
       (case skip_ws cs of
          [] \<Rightarrow> None
        | d # rest \<Rightarrow> if d = 125 then Some (PDict [], rest) else parse_object n (d # rest) [])
     else if c = 91 then
       (case skip_ws cs of
          [] \<Rightarrow> None
        | d # rest \<Rightarrow> if d = 93 then Some (PList [], rest) else parse_array n (d # rest) [])
     else if is_prefix (U ''null'') (c # cs) then Some (PNone, drop 4 (c # cs))
     else if is_prefix (U ''true'') (c # cs) then Some (PBool True, drop 4 (c # cs))
     else if is_prefix (U ''false'') (c # cs) then Some (PBool False, drop 5 (c # cs))
     else scan_number (c # cs))"
| "parse_array 0 s acc = None"
| "parse_array (Suc n) s acc =
    (case parse_value n s of
       None \<Rightarrow> None
     | Some (v, rest) \<Rightarrow>
         (case skip_ws rest of
            [] \<Rightarrow> None
          | d # rest' \<Rightarrow>
              if d = 93 then Some (PList (acc @ [v]), rest')
              else if d = 44 then parse_array n (skip_ws rest') (acc @ [v])
              else None))"
| "parse_object 0 s acc = None"
| "parse_object (Suc n) [] acc = None"
| "parse_object (Suc n) (q # cs) acc =
    (if q \<noteq> 34 then None
     else
       (case scan_string cs [] of
          None \<Rightarrow> None
        | Some (key, rest) \<Rightarrow>
            (case skip_ws rest of
               [] \<Rightarrow> None
             | colon # rest' \<Rightarrow>
                 if colon \<noteq> 58 then None
                 else
                   (case parse_value n (skip_ws rest') of
                      None \<Rightarrow> None
                    | Some (v, rest'') \<Rightarrow>
                        (case skip_ws rest'' of
                           [] \<Rightarrow> None
                         | d # r \<Rightarrow>
                             if d = 125 then Some (PDict (dict_set key v acc), r)
                             else if d = 44 then parse_object n (skip_ws r) (dict_set key v acc)
                             else None)))))"

primrec json_fuel :: "pystr \<Rightarrow> nat" where
  "json_fuel [] = Suc (Suc 0)"
| "json_fuel (c # cs) = Suc (Suc (json_fuel cs))"

text \<open>\<open>json.loads\<close>: \<open>None\<close> stands for \<open>JSONDecodeError\<close>.\<close>

definition json_loads :: "pystr \<Rightarrow> pyval option" where
  "json_loads s =
    (case parse_value (json_fuel s) (skip_ws s) of
       None \<Rightarrow> None
     | Some (v, rest) \<Rightarrow> if skip_ws rest = [] then Some v else None)"

section \<open>The vector search service (qdrant\_service.py)\<close>

text \<open>
  The payload of a stored point, with the keys \<open>search_products_batch\<close> reads;
  \<open>None\<close> is an absent key.
\<close>

record payload =
  pl_nombre :: "pystr option"
  pl_precio :: "pyfloat option"
  pl_tienda_id :: "pystr option"
  pl_codigo :: "pystr option"
  pl_categoria :: "pystr option"
  pl_presentacion :: "pystr option"

definition empty_payload :: payload where
  "empty_payload = \<lparr>pl_nombre = None, pl_precio = None, pl_tienda_id = None,
     pl_codigo = None, pl_categoria = None, pl_presentacion = None\<rparr>"

record ScoredPoint =
  hit_id :: pystr
  hit_payload :: "payload option"
  hit_score :: real

record ProductMatch =
  match_id :: pystr
  nombre :: pystr
  precio :: pyfloat
  tienda_id :: pystr
  codigo :: "pystr option"
  categoria :: "pystr option"
  presentacion :: "pystr option"
  score :: real
  metadata :: payload

text \<open>
  The external search capability \<open>client.search(query_vector, query_filter, limit,
  score_threshold)\<close>. The embedding service yields one vector per query text, a function
  of the text, so the query text stands for its vector; the filter is the store identifier
  it is built from. The call either fails or returns the hits of the index. A similarity
  score is a finite float that the code copies from the hit to the result and never
  computes with; it is held as the real it denotes.
\<close>

type_synonym qdrant_client =
  "pystr \<Rightarrow> pystr option \<Rightarrow> nat \<Rightarrow> real \<Rightarrow> py_error + ScoredPoint list"

definition to_match :: "ScoredPoint \<Rightarrow> ProductMatch" where
  "to_match hit =
    (let pl = (case hit_payload hit of None \<Rightarrow> empty_payload | Some p \<Rightarrow> p) in
     \<lparr>match_id = hit_id hit,
      nombre = (case pl_nombre pl of None \<Rightarrow> [] | Some n \<Rightarrow> n),
      precio = (case pl_precio pl of None \<Rightarrow> Fin 0 | Some x \<Rightarrow> x),
      tienda_id = (case pl_tienda_id pl of None \<Rightarrow> [] | Some t \<Rightarrow> t),
      codigo = pl_codigo pl,
      categoria = pl_categoria pl,
      presentacion = pl_presentacion pl,
      score = hit_score hit,
      metadata = pl\<rparr>)"

text \<open>The loop of \<open>search_products_batch\<close>: one search per query, stored under the query.\<close>

fun search_loop ::
  "qdrant_client \<Rightarrow> pystr option \<Rightarrow> nat \<Rightarrow> real \<Rightarrow> pystr list \<Rightarrow>
   (pystr \<rightharpoonup> ProductMatch list) \<Rightarrow> py_error + (pystr \<rightharpoonup> ProductMatch list)" where
  "search_loop client search_filter limit score_threshold [] results = Inr results"
| "search_loop client search_filter limit score_threshold (query # queries) results =
    (case client query search_filter limit score_threshold of
       Inl e \<Rightarrow> Inl e
     | Inr hits \<Rightarrow>
         search_loop client search_filter limit score_threshold queries
           (results(query \<mapsto> map to_match hits)))"

definition search_products_batch ::
  "qdrant_client \<Rightarrow> pystr list \<Rightarrow> pystr option \<Rightarrow> nat \<Rightarrow> real \<Rightarrow>
   py_error + (pystr \<rightharpoonup> ProductMatch list)" where
  "search_products_batch client queries tienda limit score_threshold =
    (let search_filter = (case tienda of None \<Rightarrow> None
                          | Some t \<Rightarrow> if t = [] then None else Some t)
     in search_loop client search_filter limit score_threshold queries Map.empty)"

section \<open>Price validation (price\_validator.py)\<close>

text \<open>A product extracted from an image: the dictionary built by the vision service.\<close>

record producto =
  p_nombre :: "pystr option"
  p_precio :: "pyfloat option"
  p_presentacion :: pyval
  p_categoria :: pyval
  p_observaciones :: pyval

record ValidationResult =
  producto_imagen :: pystr
  precio_imagen :: "pyfloat option"
  producto_sistema :: "pystr option"
  precio_sistema :: "pyfloat option"
  validacion :: pystr
  diferencia :: "pyfloat option"
  status :: pystr
  match_score :: "real option"

definition OK_MARK :: pystr where "OK_MARK = [9989]"
definition CROSS_MARK :: pystr where "CROSS_MARK = [10060]"
definition WARNING_SIGN :: pystr where "WARNING_SIGN = [9888, 65039]"

record Settings =
  PRICE_TOLERANCE_PERCENT :: pyfloat
  SEARCH_LIMIT :: nat
  SIMILARITY_THRESHOLD :: real

definition settings :: Settings where
  "settings = \<lparr>PRICE_TOLERANCE_PERCENT = Fin 5, SEARCH_LIMIT = 5, SIMILARITY_THRESHOLD = 7 / 10\<rparr>"

record PriceValidator =
  qdrant :: qdrant_client
  tolerance :: pyfloat
  search_limit :: nat
  similarity_threshold :: real

definition init_PriceValidator :: "Settings \<Rightarrow> qdrant_client \<Rightarrow> PriceValidator" where
  "init_PriceValidator cfg qdrant_service =
    \<lparr>qdrant = qdrant_service,
     tolerance = fl_div (PRICE_TOLERANCE_PERCENT cfg) (Fin 100),
     search_limit = SEARCH_LIMIT cfg,
     similarity_threshold = SIMILARITY_THRESHOLD cfg\<rparr>"

definition prices_match :: "PriceValidator \<Rightarrow> pyfloat \<Rightarrow> pyfloat \<Rightarrow> bool" where
  "prices_match self precio_img precio_sis =
    (if fl_is_zero precio_sis then fl_is_zero precio_img
     else
       let diff_percent = fl_div (fl_abs (fl_sub precio_img precio_sis)) precio_sis
       in fl_le diff_percent (tolerance self))"

text \<open>The dictionary \<open>_compare_prices\<close> returns.\<close>

record comparison =
  c_validacion :: pystr
  c_diferencia :: "pyfloat option"
  c_status :: pystr

definition compare_prices ::
  "PriceValidator \<Rightarrow> pyfloat option \<Rightarrow> pyfloat option \<Rightarrow> comparison" where
  "compare_prices self precio_img precio_sis =
    (case (precio_img, precio_sis) of
       (Some pim, Some psi) \<Rightarrow>
         (let dif = fl_sub psi pim in
          if prices_match self pim psi
          then \<lparr>c_validacion = OK_MARK, c_diferencia = Some dif, c_status = U ''MATCH''\<rparr>
          else \<lparr>c_validacion = CROSS_MARK, c_diferencia = Some dif,
                c_status = U ''PRICE_DIFF''\<rparr>)
     | _ \<Rightarrow> \<lparr>c_validacion = WARNING_SIGN, c_diferencia = None, c_status = U ''NO_PRICE''\<rparr>)"

text \<open>The body of the loop of \<open>validate_products\<close> for one product.\<close>

definition validate_one ::
  "PriceValidator \<Rightarrow> (pystr \<rightharpoonup> ProductMatch list) \<Rightarrow> producto \<Rightarrow> ValidationResult" where
  "validate_one self search_results producto =
    (let nombre_imagen = (case p_nombre producto of None \<Rightarrow> U ''DESCONOCIDO'' | Some n \<Rightarrow> n);
         precio_img = p_precio producto;
         matches = (case search_results nombre_imagen of None \<Rightarrow> [] | Some ms \<Rightarrow> ms)
     in case matches of
          [] \<Rightarrow>
            \<lparr>producto_imagen = nombre_imagen, precio_imagen = precio_img,
             producto_sistema = None, precio_sistema = None,
             validacion = WARNING_SIGN, diferencia = None,
             status = U ''NOT_FOUND'', match_score = None\<rparr>
        | best_match # _ \<Rightarrow>
            (let validation_result = compare_prices self precio_img (Some (precio best_match))
             in \<lparr>producto_imagen = nombre_imagen, precio_imagen = precio_img,
                 producto_sistema = Some (nombre best_match),
                 precio_sistema = Some (precio best_match),
                 validacion = c_validacion validation_result,
                 diferencia = c_diferencia validation_result,
                 status = c_status validation_result,
                 match_score = Some (score best_match)\<rparr>))"

fun validate_loop ::
  "PriceValidator \<Rightarrow> (pystr \<rightharpoonup> ProductMatch list) \<Rightarrow> producto list \<Rightarrow>
   ValidationResult list \<Rightarrow> ValidationResult list" where
  "validate_loop self search_results [] validaciones = validaciones"
| "validate_loop self search_results (producto # rest) validaciones =
    validate_loop self search_results rest
      (validaciones @ [validate_one self search_results producto])"

definition validate_products ::
  "PriceValidator \<Rightarrow> producto list \<Rightarrow> int \<Rightarrow> py_error + ValidationResult list" where
  "validate_products self productos_imagen tienda =
    (let queries = map (\<lambda>p. case p_nombre p of None \<Rightarrow> [] | Some n \<Rightarrow> n) productos_imagen
     in case search_products_batch (qdrant self) queries (Some (str_int tienda))
               (search_limit self) (similarity_threshold self) of
          Inl e \<Rightarrow> Inl e
        | Inr search_results \<Rightarrow> Inr (validate_loop self search_results productos_imagen []))"

text \<open>\<open>_deduplicate_results\<close>: the key of a result and the loop.\<close>

definition result_key :: "ValidationResult \<Rightarrow> pystr" where
  "result_key v =
    (let key = (case producto_sistema v of
                  None \<Rightarrow> producto_imagen v
                | Some s \<Rightarrow> if s \<noteq> [] then s else producto_imagen v)
     in if key \<noteq> [] then strip (upper key) else [])"

fun dedup_results_loop ::
  "ValidationResult list \<Rightarrow> pystr set \<Rightarrow> ValidationResult list \<Rightarrow> ValidationResult list" where
  "dedup_results_loop [] seen unique = unique"
| "dedup_results_loop (v # validaciones) seen unique =
    (let key = result_key v in
     if key = [] \<or> key = U ''NULL'' \<or> key = U ''NONE''
     then dedup_results_loop validaciones seen unique
     else if key \<notin> seen then dedup_results_loop validaciones (insert key seen) (unique @ [v])
     else dedup_results_loop validaciones seen unique)"

definition deduplicate_results :: "ValidationResult list \<Rightarrow> ValidationResult list" where
  "deduplicate_results validaciones = dedup_results_loop validaciones {} []"

section \<open>Vision service (vision.py)\<close>

text \<open>
  \<open>str(x)\<close>. The text of a float, a list or a dictionary is not modelled: it is the
  parameter \<open>repr\<close>.
\<close>

fun py_str :: "(pyval \<Rightarrow> pystr) \<Rightarrow> pyval \<Rightarrow> pystr" where
  "py_str repr (PStr s) = s"
| "py_str repr PNone = U ''None''"
| "py_str repr (PBool b) = (if b then U ''True'' else U ''False'')"
| "py_str repr (PInt i) = str_int i"
| "py_str repr v = repr v"

text \<open>Truth value of an object, as \<open>not x\<close> tests it.\<close>

fun truthy :: "pyval \<Rightarrow> bool" where
  "truthy PNone = False"
| "truthy (PBool b) = b"
| "truthy (PInt i) = (i \<noteq> 0)"
| "truthy (PFloat x) = (\<not> fl_is_zero x)"
| "truthy (PStr s) = (s \<noteq> [])"
| "truthy (PList xs) = (xs \<noteq> [])"
| "truthy (PDict d) = (d \<noteq> [])"

text \<open>
  What a \<open>for\<close> loop iterates over: the elements of a list, the characters of a string,
  the keys of a dictionary; any other value raises \<open>TypeError\<close>.
\<close>

fun py_iter :: "pyval \<Rightarrow> py_error + pyval list" where
  "py_iter (PList xs) = Inr xs"
| "py_iter (PStr s) = Inr (map (\<lambda>c. PStr [c]) s)"
| "py_iter (PDict d) = Inr (map (\<lambda>(k, v). PStr k) d)"
| "py_iter v = Inl TypeError"

text \<open>\<open>float(s)\<close> for a string of digits and points, as \<open>_parse_price\<close> builds it.\<close>

definition float_of_cleaned :: "pystr \<Rightarrow> pyfloat option" where
  "float_of_cleaned s =
    (let ip = takeWhile is_digit s;
         r = drop (length ip) s;
         fp = (case r of [] \<Rightarrow> [] | c # cs \<Rightarrow> if c = 46 then takeWhile is_digit cs else []);
         r' = (case r of [] \<Rightarrow> [] | c # cs \<Rightarrow> if c = 46 then drop (length fp) cs else r);
         val = (\<lambda>ds. foldl (\<lambda>a c. 10 * a + (case digit_value c of None \<Rightarrow> 0 | Some d \<Rightarrow> d)) 0 ds)
     in if r' \<noteq> [] \<or> (ip = [] \<and> fp = []) then None
        else Some (rnd (real (val ip) + real (val fp) / 10 ^ length fp)))"

text \<open>\<open>float(i)\<close> for an integer: the nearest double, \<open>OverflowError\<close> when there is none.\<close>

definition float_of_int :: "int \<Rightarrow> py_error + pyfloat" where
  "float_of_int i =
    (case rnd (real_of_int i) of
       PosInf \<Rightarrow> Inl OverflowError
     | NegInf \<Rightarrow> Inl OverflowError
     | x \<Rightarrow> Inr x)"

fun parse_price :: "pyval \<Rightarrow> py_error + pyfloat option" where
  "parse_price PNone = Inr None"
| "parse_price (PBool b) = Inr (Some (if b then Fin 1 else Fin 0))"
| "parse_price (PInt i) = (case float_of_int i of Inl e \<Rightarrow> Inl e | Inr x \<Rightarrow> Inr (Some x))"
| "parse_price (PFloat x) = Inr (Some x)"
| "parse_price (PStr s) =
    (if s = U ''No visible'' \<or> s = U ''null'' then Inr None
     else
       let cleaned = re_sub False (NotAtom [Digit, Ch 46]) [] s
       in if cleaned = [] then Inr None else Inr (float_of_cleaned cleaned))"
| "parse_price v = Inr None"

text \<open>
  The patterns of \<open>_parse_gemini_response\<close>, \<^verbatim>\<open>^```json\s*\<close> and
  \<^verbatim>\<open>\s*```$\<close>, and of \<open>_extract_products_regex\<close>,
  \<^verbatim>\<open>"nombre"\s*:\s*"([^"]+)"[^}]*?"precio"\s*:\s*(\d+(?:\.\d+)?)\<close>,
  the last one matched without regard to case.
\<close>

definition pat_json_fence :: regex where
  "pat_json_fence = seqs [Bol, lit ''```json'', ws0]"

definition pat_end_fence :: regex where
  "pat_end_fence = seqs [ws0, lit ''```'', Eol]"

definition pat_producto :: regex where
  \<open>pat_producto =
    seqs [lit ''"nombre"'', ws0, lit '':'', ws0, lit ''"'', Group 1 (Plus (NotAtom [Ch 34])),
          lit ''"'', LazyStar (NotAtom [Ch 125]), lit ''"precio"'', ws0, lit '':'', ws0,
          Group 2 (seqs [digits1, Opt (seqs [lit ''.'', digits1])])]\<close>

text \<open>
  The loop of \<open>_extract_products_regex\<close> over the matches; a price that \<open>float\<close>
  refuses skips the match.
\<close>

fun regex_loop :: "(nat \<times> pystr) list list \<Rightarrow> producto list \<Rightarrow> producto list" where
  "regex_loop [] productos = productos"
| "regex_loop (groups # matches) productos =
    (let nombre = (case map_of groups 1 of None \<Rightarrow> [] | Some g \<Rightarrow> g);
         precio = (case map_of groups 2 of None \<Rightarrow> [] | Some g \<Rightarrow> g)
     in case float_of_cleaned precio of
          None \<Rightarrow> regex_loop matches productos
        | Some x \<Rightarrow>
            regex_loop matches
              (productos @
               [\<lparr>p_nombre = Some (strip (upper nombre)),
                 p_precio = Some x,
                 p_presentacion = PStr [],
                 p_categoria = PStr (U ''General''),
                 p_observaciones = PNone\<rparr>]))"

definition extract_products_regex :: "pystr \<Rightarrow> producto list" where
  "extract_products_regex text = regex_loop (re_findall True pat_producto text) []"

fun rfind_from :: "pystr \<Rightarrow> pystr \<Rightarrow> nat \<Rightarrow> int \<Rightarrow> int" where
  "rfind_from sub [] i found = (if sub = [] then int i else found)"
| "rfind_from sub (c # cs) i found =
    rfind_from sub cs (Suc i) (if is_prefix sub (c # cs) then int i else found)"

definition rfind :: "pystr \<Rightarrow> pystr \<Rightarrow> int" where
  "rfind sub s = rfind_from sub s 0 (- 1)"

text \<open>\<open>_repair_truncated_json\<close>; \<open>PNone\<close> is the Python \<open>None\<close> it returns on failure.\<close>

definition repair_truncated_json :: "pystr \<Rightarrow> pyval" where
  "repair_truncated_json text =
    (let open_brackets = count_char 91 text - count_char 93 text;
         open_braces = count_char 123 text - count_char 125 text;
         repaired = rstrip_chars [44] (rstrip text);
         repaired = repaired @ repeat_char 125 open_braces;
         repaired = repaired @ repeat_char 93 open_brackets
     in case json_loads repaired of
          Some data \<Rightarrow> data
        | None \<Rightarrow>
            (let last_complete = rfind (U ''},'') text in
             if last_complete > 0 then
               (let truncated = take (nat (last_complete + 1)) text;
                    open_brackets = count_char 91 truncated - count_char 93 truncated;
                    open_braces = count_char 123 truncated - count_char 125 truncated;
                    truncated = truncated @ repeat_char 125 (max 0 open_braces);
                    truncated = truncated @ repeat_char 93 (max 0 open_brackets)
                in case json_loads truncated of Some data \<Rightarrow> data | None \<Rightarrow> PNone)
             else PNone))"

text \<open>The inner loop of \<open>_parse_gemini_response\<close> over the products of one section.\<close>

fun productos_loop ::
  "(pyval \<Rightarrow> pystr) \<Rightarrow> pyval \<Rightarrow> pyval list \<Rightarrow> producto list \<Rightarrow> py_error + producto list" where
  "productos_loop repr categoria_seccion [] productos_flat = Inr productos_flat"
| "productos_loop repr categoria_seccion (PDict producto # rest) productos_flat =
    (let nombre = strip (upper (py_str repr
                    (case dict_get producto (U ''nombre'') of None \<Rightarrow> PStr [] | Some v \<Rightarrow> v)))
     in if nombre \<noteq> [] \<and> nombre \<noteq> U ''NULL'' then
          (case parse_price (case dict_get producto (U ''precio'') of None \<Rightarrow> PNone | Some v \<Rightarrow> v) of
             Inl e \<Rightarrow> Inl e
           | Inr precio_producto \<Rightarrow>
               productos_loop repr categoria_seccion rest
                 (productos_flat @
                  [\<lparr>p_nombre = Some nombre,
                    p_precio = precio_producto,
                    p_presentacion =
                      (case dict_get producto (U ''presentacion'') of None \<Rightarrow> PStr [] | Some v \<Rightarrow> v),
                    p_categoria = categoria_seccion,
                    p_observaciones =
                      (case dict_get producto (U ''observaciones'') of None \<Rightarrow> PNone | Some v \<Rightarrow> v)\<rparr>]))
        else productos_loop repr categoria_seccion rest productos_flat)"
| "productos_loop repr categoria_seccion (_ # rest) productos_flat =
    productos_loop repr categoria_seccion rest productos_flat"

text \<open>The outer loop over the sections.\<close>

fun secciones_loop ::
  "(pyval \<Rightarrow> pystr) \<Rightarrow> pyval list \<Rightarrow> producto list \<Rightarrow> py_error + producto list" where
  "secciones_loop repr [] productos_flat = Inr productos_flat"
| "secciones_loop repr (PDict seccion # rest) productos_flat =
    (let categoria = (case dict_get seccion (U ''categoria'') of
                        None \<Rightarrow> PStr (U ''General'') | Some v \<Rightarrow> v);
         productos = (case dict_get seccion (U ''productos'') of None \<Rightarrow> PList [] | Some v \<Rightarrow> v);
         productos = (if \<not> truthy productos \<and> dict_get seccion (U ''nombre'') \<noteq> None
                      then PList [PDict seccion] else productos)
     in case py_iter productos of
          Inl e \<Rightarrow> Inl e
        | Inr items \<Rightarrow>
            (case productos_loop repr categoria items productos_flat of
               Inl e \<Rightarrow> Inl e
             | Inr productos_flat' \<Rightarrow> secciones_loop repr rest productos_flat'))"
| "secciones_loop repr (_ # rest) productos_flat = secciones_loop repr rest productos_flat"

definition parse_gemini_response :: "(pyval \<Rightarrow> pystr) \<Rightarrow> pystr \<Rightarrow> py_error + producto list" where
  "parse_gemini_response repr text0 =
    (let text = re_sub False pat_json_fence [] text0;
         text = re_sub False pat_end_fence [] text;
         text = strip text
     in case json_loads text of
          Some PNone \<Rightarrow> Inr []
        | Some (PList secciones) \<Rightarrow> secciones_loop repr secciones []
        | Some data \<Rightarrow> secciones_loop repr [data] []
        | None \<Rightarrow>
            (case repair_truncated_json text of
               PNone \<Rightarrow> Inr (extract_products_regex text)
             | PList secciones \<Rightarrow> secciones_loop repr secciones []
             | data \<Rightarrow> secciones_loop repr [data] []))"

text \<open>\<open>_deduplicate_products\<close>.\<close>

definition nombre_of :: "producto \<Rightarrow> pystr" where
  "nombre_of p = strip (upper (case p_nombre p of None \<Rightarrow> [] | Some n \<Rightarrow> n))"

definition invalid_nombre :: "pystr \<Rightarrow> bool" where
  "invalid_nombre name =
    (name = [] \<or> name \<in> set [U ''NULL'', U ''NONE'', U ''NO VISIBLE'', U ''NO LEGIBLE''])"

definition key_of :: "pystr \<Rightarrow> pystr" where
  "key_of name = re_sub False ws1 (U '' '') name"

fun dedup_loop :: "producto list \<Rightarrow> pystr set \<Rightarrow> producto list \<Rightarrow> producto list" where
  "dedup_loop [] seen unique = unique"
| "dedup_loop (p # products) seen unique =
    (let nombre = nombre_of p in
     if invalid_nombre nombre then dedup_loop products seen unique
     else
       let key = key_of nombre in
       if key \<notin> seen then dedup_loop products (insert key seen) (unique @ [p])
       else dedup_loop products seen unique)"

definition deduplicate_products :: "producto list \<Rightarrow> producto list" where
  "deduplicate_products products = dedup_loop products {} []"

text \<open>
  Keeping the first occurrence per key, as a specification: the elements that pass
  \<open>ok\<close> and whose key has not been seen, in order.
\<close>

fun first_occurrences :: "('a \<Rightarrow> bool) \<Rightarrow> ('a \<Rightarrow> 'k) \<Rightarrow> 'k set \<Rightarrow> 'a list \<Rightarrow> 'a list" where
  "first_occurrences ok key seen [] = []"
| "first_occurrences ok key seen (x # xs) =
    (if ok x \<and> key x \<notin> seen then x # first_occurrences ok key (insert (key x) seen) xs
     else first_occurrences ok key seen xs)"

definition valid_producto :: "producto \<Rightarrow> bool" where
  "valid_producto p = (\<not> invalid_nombre (nombre_of p))"

definition producto_key :: "producto \<Rightarrow> pystr" where
  "producto_key p = key_of (nombre_of p)"

definition valid_result :: "ValidationResult \<Rightarrow> bool" where
  "valid_result v = (\<not> (result_key v = [] \<or> result_key v = U ''NULL'' \<or> result_key v = U ''NONE''))"

section \<open>Intent parsing (slack\_handler.py)\<close>

definition a_acute :: regex where "a_acute = Atom [Ch 97, Ch 225]"

text \<open>
  \<open>(la|el|los|las)?\<close> and \<open>(el|la|los|las)?\<close>, as group \<open>k\<close> of a pattern.
\<close>

definition articles4 :: "nat \<Rightarrow> regex" where
  "articles4 k = Opt (Group k (alts [lit ''la'', lit ''el'', lit ''los'', lit ''las'']))"

definition articles4' :: "nat \<Rightarrow> regex" where
  "articles4' k = Opt (Group k (alts [lit ''el'', lit ''la'', lit ''los'', lit ''las'']))"

text \<open>
  The patterns of \<open>_extract_tienda_id\<close>, in its order, searched in the lower-cased text:
  \<^verbatim>\<open>tienda\s*[#:]?\s*(\d+)\<close>, \<^verbatim>\<open>store\s*[#:]?\s*(\d+)\<close>,
  \<^verbatim>\<open>sucursal\s*[#:]?\s*(\d+)\<close>, \<^verbatim>\<open>#(\d{3,4})\b\<close> and
  \<^verbatim>\<open>\b(\d{3,4})\b\<close>. The first match of a pattern whose number lies in 1..9999
  is the answer; \<open>int\<close> of the group is the value of its run of decimal digits (the
  limit of the interpreter on the length of such a run is not modelled).
\<close>

definition repeat_3_4 :: "regex \<Rightarrow> regex" where
  "repeat_3_4 r = seqs [r, r, r, Opt r]"

definition tienda_patterns :: "regex list" where
  "tienda_patterns =
    [seqs [lit ''tienda'', ws0, Opt (Atom [Ch 35, Ch 58]), ws0, Group 1 digits1],
     seqs [lit ''store'', ws0, Opt (Atom [Ch 35, Ch 58]), ws0, Group 1 digits1],
     seqs [lit ''sucursal'', ws0, Opt (Atom [Ch 35, Ch 58]), ws0, Group 1 digits1],
     seqs [lit ''#'', Group 1 (repeat_3_4 (Atom [Digit])), WordB],
     seqs [WordB, Group 1 (repeat_3_4 (Atom [Digit])), WordB]]"

definition int_of_digits :: "pystr \<Rightarrow> int" where
  "int_of_digits s =
    int (foldl (\<lambda>a c. 10 * a + (case digit_value c of None \<Rightarrow> 0 | Some d \<Rightarrow> d)) 0 s)"

fun tienda_loop :: "regex list \<Rightarrow> pystr \<Rightarrow> int option" where
  "tienda_loop [] text_lower = None"
| "tienda_loop (pattern # patterns) text_lower =
    (case re_search False pattern text_lower of
       None \<Rightarrow> tienda_loop patterns text_lower
     | Some m \<Rightarrow>
         (let tienda = int_of_digits (case group m 1 of None \<Rightarrow> [] | Some g \<Rightarrow> g)
          in if 1 \<le> tienda \<and> tienda \<le> 9999 then Some tienda
             else tienda_loop patterns text_lower))"

definition extract_tienda_id :: "pystr \<Rightarrow> int option" where
  "extract_tienda_id text =
    (if text = [] then None else tienda_loop tienda_patterns (lower text))"

text \<open>
  The substitutions of \<open>_extract_search_term\<close>. A store reference is
  \<^verbatim>\<open>(de\s+la\s+)?tienda\s*[#:]?\s*\d+\<close> (and the same with \<open>store\<close> and
  \<open>sucursal\<close>), matched without regard to case. The filler phrases follow in the order
  of the source; \<open>a_acute\<close> is the class of \<open>a\<close> and \<open>a\<close> with an acute accent (code
  point 225), so that the second phrase is
  \<^verbatim>\<open>cu[a.]l\s+es\s+el\s+precio\s+de\s+(la|el|los|las)?\s*\<close>.
\<close>

definition store_reference :: "string \<Rightarrow> regex" where
  "store_reference word =
    seqs [Opt (Group 1 (seqs [lit ''de'', ws1, lit ''la'', ws1])), lit word, ws0,
          Opt (Atom [Ch 35, Ch 58]), ws0, digits1]"

definition precio_de :: regex where
  "precio_de = seqs [lit ''precio'', ws1, lit ''de'', ws1]"

definition frases_remover :: "regex list" where
  "frases_remover =
    [seqs [lit ''tr'', a_acute, lit ''eme'', ws1, lit ''el'', ws1, precio_de, articles4 1, ws0],
     seqs [lit ''cu'', a_acute, lit ''l'', ws1, lit ''es'', ws1, lit ''el'', ws1, precio_de,
           articles4 1, ws0],
     seqs [lit ''dame'', ws1, lit ''el'', ws1, precio_de, articles4 1, ws0],
     seqs [lit ''quiero'', ws1, Opt (Group 1 (seqs [lit ''saber'', ws1])),
           Opt (Group 2 (seqs [lit ''el'', ws1])), precio_de, articles4 3, ws0],
     seqs [lit ''consulta'', ws1, Opt (Group 1 (seqs [lit ''el'', ws1])), precio_de,
           articles4 2, ws0],
     seqs [lit ''busca'', Opt (Group 1 (lit ''r'')), ws1, Opt (Group 2 (seqs [lit ''el'', ws1])),
           precio_de, articles4 3, ws0],
     seqs [precio_de, articles4 1, ws0],
     seqs [lit ''tr'', a_acute, lit ''eme'', ws1, articles4' 1, ws0],
     seqs [lit ''cu'', a_acute, lit ''l'', ws1, lit ''es'', ws1,
           Opt (Group 1 (alts [lit ''el'', lit ''la''])), ws0],
     seqs [lit ''dame'', ws1, articles4' 1, ws0],
     seqs [lit ''busca'', Opt (Group 1 (lit ''r'')), ws0],
     seqs [lit ''precio'', ws1, lit ''de'', Opt (Group 1 (lit ''l'')), ws0],
     seqs [WordB, lit ''precio'', WordB],
     seqs [WordB, lit ''cuanto'', ws1, lit ''cuesta'', WordB],
     seqs [WordB, lit ''cu'', Atom [Ch 225], lit ''nto'', ws1, lit ''cuesta'', WordB]]"

text \<open>The text \<open>_extract_search_term\<close> is left with after its substitutions.\<close>

definition clean_search_text :: "pystr \<Rightarrow> pystr" where
  "clean_search_text text =
    (let cleaned = text;
         cleaned = re_sub False (seqs [lit ''<@'', Plus (Atom [Range 65 90, Range 48 57]),
                                        lit ''>'']) [] cleaned;
         cleaned = re_sub True (store_reference ''tienda'') [] cleaned;
         cleaned = re_sub True (store_reference ''store'') [] cleaned;
         cleaned = re_sub True (store_reference ''sucursal'') [] cleaned;
         cleaned = re_sub False (seqs [lit ''#'', digits1]) [] cleaned;
         cleaned = foldl (\<lambda>cleaned patron. re_sub True patron [] cleaned) cleaned frases_remover;
         cleaned = strip (re_sub False ws1 (U '' '') cleaned);
         cleaned = re_sub True
           (seqs [Bol, Group 1 (alts [lit ''el'', lit ''la'', lit ''los'', lit ''las'',
                                      lit ''de'', lit ''del'']), ws1]) [] cleaned
     in strip cleaned)"

definition extract_search_term :: "pystr \<Rightarrow> pystr option" where
  "extract_search_term text =
    (if text = [] then None
     else let cleaned = clean_search_text text
          in if length cleaned > 2 then Some cleaned else None)"

definition greetings :: "pystr list" where
  "greetings =
    [U ''hola'', U ''hello'', U ''hi'', U ''hey'', U ''buenos d'' @ [237] @ U ''as'',
     U ''buenas tardes'', U ''buenas noches'', U ''ayuda'', U ''help'',
     U ''qu'' @ [233] @ U '' puedes'', U ''que puedes'',
     U ''para qu'' @ [233] @ U '' sirves'', U ''para que sirves'',
     U ''qu'' @ [233] @ U '' haces'', U ''que haces'',
     U ''c'' @ [243] @ U ''mo funciona'', U ''como funciona'']"

definition truthy_id :: "int option \<Rightarrow> bool" where
  "truthy_id r = (case r of None \<Rightarrow> False | Some n \<Rightarrow> n \<noteq> 0)"

definition is_greeting_or_help :: "pystr \<Rightarrow> bool" where
  "is_greeting_or_help text =
    (let text_lower = lower text in
     if truthy_id (extract_tienda_id text) then False
     else
       let is_greeting = list_ex (\<lambda>g. contains g text_lower) greetings in
       if strip text = U ''?'' then True else is_greeting)"

section \<open>Example inputs\<close>

text \<open>
  Concrete search capabilities and products, their prices given as the reals the floats
  denote: a catalogue holding HARINA at price 20
  (similarity 0.9) and nothing for any other query; a capability whose hits are not
  sorted by similarity; and one whose call fails for the query ACEITE.
\<close>

definition example_hit :: "pystr \<Rightarrow> pystr \<Rightarrow> real \<Rightarrow> real \<Rightarrow> ScoredPoint" where
  "example_hit i n p s =
    \<lparr>hit_id = i,
     hit_payload = Some \<lparr>pl_nombre = Some n, pl_precio = Some (Fin p), pl_tienda_id = Some (U ''100''),
       pl_codigo = None, pl_categoria = None, pl_presentacion = None\<rparr>,
     hit_score = s\<rparr>"

definition example_producto :: "pystr \<Rightarrow> real option \<Rightarrow> producto" where
  "example_producto n p =
    \<lparr>p_nombre = Some n, p_precio = map_option Fin p, p_presentacion = PStr [],
     p_categoria = PStr (U ''General''), p_observaciones = PNone\<rparr>"

definition catalog_client :: qdrant_client where
  "catalog_client q f l t =
    (if q = U ''HARINA'' then Inr [example_hit (U ''1'') (U ''HARINA'') 20 (9 / 10)] else Inr [])"

definition unsorted_client :: qdrant_client where
  "unsorted_client q f l t =
    (if q = U ''HARINA''
     then Inr [example_hit (U ''1'') (U ''HARINA INTEGRAL'') 30 (8 / 10),
               example_hit (U ''2'') (U ''HARINA'') 20 (9 / 10)]
     else Inr [])"

definition failing_client :: qdrant_client where
  "failing_client q f l t =
    (if q = U ''ACEITE'' then Inl CapabilityError
     else if q = U ''HARINA'' then Inr [example_hit (U ''1'') (U ''HARINA'') 20 (9 / 10)]
     else Inr [])"

definition end_to_end_results :: "ValidationResult list" where
  "end_to_end_results =
    [\<lparr>producto_imagen = U ''HARINA'', precio_imagen = Some (Fin 20),
      producto_sistema = Some (U ''HARINA''), precio_sistema = Some (Fin 20),
      validacion = OK_MARK, diferencia = Some (Fin 0),
      status = U ''MATCH'', match_score = Some (9 / 10)\<rparr>,
     \<lparr>producto_imagen = U ''ACEITE'', precio_imagen = Some (Fin 50),
      producto_sistema = None, precio_sistema = None,
      validacion = WARNING_SIGN, diferencia = None,
      status = U ''NOT_FOUND'', match_score = None\<rparr>]"

text \<open>
  Texts of the generative model: the truncated answer of the specification (and its part
  up to the last complete object), a well-formed answer whose product list is a number,
  and a fragment whose product name is blank. A list of products with a duplicate and a
  sentinel name. Two messages of a user.
\<close>

definition truncated_input :: pystr where
  \<open>truncated_input = U (''[{"categoria":"A","productos":[{"nombre":"X","precio":1.0},'' @
                         ''{"nombre":"Y","preci'')\<close>

definition complete_prefix :: pystr where
  \<open>complete_prefix = U ''[{"categoria":"A","productos":[{"nombre":"X","precio":1.0}''\<close>

definition non_iterable_input :: pystr where
  \<open>non_iterable_input = U ''{"productos": 1}''\<close>

definition blank_name_input :: pystr where
  \<open>blank_name_input = U ''"nombre": " ", "precio": 1''\<close>

definition dedup_example :: "producto list" where
  "dedup_example =
    [example_producto (U ''Harina  de trigo'') (Some 20),
     example_producto (U ''null'') None,
     example_producto (U '' HARINA DE   TRIGO '') (Some 21),
     example_producto (U ''Aceite'') (Some 50)]"

definition harina_query :: pystr where
  "harina_query = [191] @ U ''Cu'' @ [225] @ U ''l es el precio de la Harina en la tienda 100?''"

definition short_query :: pystr where
  "short_query = U ''precio de el t'' @ [233] @ U '' tienda 810''"

section \<open>Properties of price validation\<close>

lemma status_distinct:
  "U ''MATCH'' \<noteq> U ''PRICE_DIFF''" "U ''MATCH'' \<noteq> U ''NOT_FOUND''" "U ''MATCH'' \<noteq> U ''NO_PRICE''"
  "U ''PRICE_DIFF'' \<noteq> U ''NOT_FOUND''" "U ''PRICE_DIFF'' \<noteq> U ''NO_PRICE''"
  "U ''NOT_FOUND'' \<noteq> U ''NO_PRICE''"
  by (simp_all add: U_def)

lemma mark_distinct:
  "OK_MARK \<noteq> CROSS_MARK" "OK_MARK \<noteq> WARNING_SIGN" "CROSS_MARK \<noteq> WARNING_SIGN"
  by (simp_all add: OK_MARK_def CROSS_MARK_def WARNING_SIGN_def)

lemmas fl_eval = rnd_def exponent_def pow2_def round_even_def binade.simps Let_def

lemma default_tolerance:
  "tolerance (init_PriceValidator settings client) = Fin (3602879701896397 / 2 ^ 56)"
  by (simp add: init_PriceValidator_def settings_def fl_eval)

lemma rnd_one: "rnd 1 = Fin 1"
  by (simp add: fl_eval)

lemma float_105_01: "rnd (10501 / 100) = Fin (7389421826096497 / 2 ^ 46)"
  by (simp add: fl_eval)

lemma compare_prices_status:
  "c_status (compare_prices self (Some a) (Some b)) =
     (if fl_is_zero b then (if fl_is_zero a then U ''MATCH'' else U ''PRICE_DIFF'')
      else if fl_le (fl_div (fl_abs (fl_sub a b)) b) (tolerance self) then U ''MATCH''
      else U ''PRICE_DIFF'')"
  by (simp add: compare_prices_def prices_match_def Let_def)

lemma boundary_105:
  "fl_sub (Fin 105) (Fin 100) = Fin 5"
  "fl_div (Fin 5) (Fin 100) = Fin (3602879701896397 / 2 ^ 56)"
  by (simp_all add: fl_eval)

lemma boundary_105_01:
  "fl_sub (Fin (7389421826096497 / 2 ^ 46)) (Fin 100) = Fin (352547408330097 / 2 ^ 46)"
  "fl_div (Fin (352547408330097 / 2 ^ 46)) (Fin 100) = Fin (7220170922600387 / 2 ^ 57)"
  by (simp_all add: fl_eval)

lemma rounded_quotient:
  "fl_sub (Fin 8549999999999999) (Fin 8999999999999999) = Fin (- 450000000000000)"
  "fl_div (Fin 450000000000000) (Fin 8999999999999999) = Fin (3602879701896397 / 2 ^ 56)"
  by (simp_all add: fl_eval)

text \<open>
  C1, as the code has it: price agreement is totally determined. If either price is
  absent the status is NO\_PRICE. If both are present the difference is the float
  \<open>system - image\<close>; for a system price equal to 0 the status is MATCH exactly when the
  image price equals 0, and otherwise it is MATCH exactly when the float
  \<open>abs(image - system) / system\<close>, each operation rounded to the nearest double, is at most
  the tolerance, and PRICE\_DIFF if not. The default tolerance is the float \<open>5.0 / 100\<close>;
  with it, system price 100 and image price 105 give MATCH (the boundary), and the image
  price 105.01 gives PRICE\_DIFF.
\<close>

theorem compare_prices_classification:
  "compare_prices self None q =
     \<lparr>c_validacion = WARNING_SIGN, c_diferencia = None, c_status = U ''NO_PRICE''\<rparr>
   \<and> compare_prices self p None =
     \<lparr>c_validacion = WARNING_SIGN, c_diferencia = None, c_status = U ''NO_PRICE''\<rparr>
   \<and> c_diferencia (compare_prices self (Some a) (Some b)) = Some (fl_sub b a)
   \<and> c_status (compare_prices self (Some a) (Some b)) =
       (if fl_is_zero b then (if fl_is_zero a then U ''MATCH'' else U ''PRICE_DIFF'')
        else if fl_le (fl_div (fl_abs (fl_sub a b)) b) (tolerance self) then U ''MATCH''
        else U ''PRICE_DIFF'')
   \<and> U ''MATCH'' \<noteq> U ''PRICE_DIFF''
   \<and> tolerance (init_PriceValidator settings client) = fl_div (Fin 5) (Fin 100)
   \<and> c_status (compare_prices (init_PriceValidator settings client)
        (Some (Fin 105)) (Some (Fin 100))) = U ''MATCH''
   \<and> c_status (compare_prices (init_PriceValidator settings client)
        (Some (rnd (10501 / 100))) (Some (Fin 100))) = U ''PRICE_DIFF''"
proof -
  have none: "compare_prices self None q =
     \<lparr>c_validacion = WARNING_SIGN, c_diferencia = None, c_status = U ''NO_PRICE''\<rparr>"
    by (simp add: compare_prices_def)
  have none': "compare_prices self p None =
     \<lparr>c_validacion = WARNING_SIGN, c_diferencia = None, c_status = U ''NO_PRICE''\<rparr>"
    by (cases p) (simp_all add: compare_prices_def)
  have dif: "c_diferencia (compare_prices self (Some a) (Some b)) = Some (fl_sub b a)"
    by (simp add: compare_prices_def Let_def)
  have st: "c_status (compare_prices self (Some a) (Some b)) =
       (if fl_is_zero b then (if fl_is_zero a then U ''MATCH'' else U ''PRICE_DIFF'')
        else if fl_le (fl_div (fl_abs (fl_sub a b)) b) (tolerance self) then U ''MATCH''
        else U ''PRICE_DIFF'')"
    by (rule compare_prices_status)
  have tol: "tolerance (init_PriceValidator settings client) = fl_div (Fin 5) (Fin 100)"
    by (simp add: init_PriceValidator_def settings_def)
  have a1: "fl_abs (Fin 5) = Fin 5"
    by simp
  have a2: "fl_abs (Fin (352547408330097 / 2 ^ 46)) = Fin (352547408330097 / 2 ^ 46)"
    by simp
  have b1: "c_status (compare_prices (init_PriceValidator settings client)
        (Some (Fin 105)) (Some (Fin 100))) = U ''MATCH''"
    unfolding compare_prices_status default_tolerance boundary_105 a1 boundary_105(2)
    by simp
  have b2: "c_status (compare_prices (init_PriceValidator settings client)
        (Some (rnd (10501 / 100))) (Some (Fin 100))) = U ''PRICE_DIFF''"
    unfolding compare_prices_status default_tolerance float_105_01 boundary_105_01 a2
      boundary_105_01(2)
    using status_distinct by simp
  from none none' dif st tol b1 b2 status_distinct(1) show ?thesis by blast
qed

text \<open>
  The claim C1 as stated fails: read over the numbers the prices denote, the rule is not
  the code's. For the system price 8999999999999999 and the image price 8549999999999999,
  both of them floats, the relative deviation is above 5 percent, and above the default
  tolerance, yet the status is MATCH: the quotient is rounded down to the tolerance.
\<close>

theorem compare_prices_rounding_counterexample:
  "c_status (compare_prices (init_PriceValidator settings catalog_client)
      (Some (Fin 8549999999999999)) (Some (Fin 8999999999999999))) = U ''MATCH''
   \<and> rnd 8549999999999999 = Fin 8549999999999999
   \<and> rnd 8999999999999999 = Fin 8999999999999999
   \<and> \<not> (\<bar>8549999999999999 - 8999999999999999\<bar> / 8999999999999999 \<le> (5 / 100 :: real))
   \<and> tolerance (init_PriceValidator settings catalog_client) = Fin (3602879701896397 / 2 ^ 56)
   \<and> \<not> (\<bar>8549999999999999 - 8999999999999999\<bar> / 8999999999999999
          \<le> (3602879701896397 / 2 ^ 56 :: real))"
proof -
  have a: "fl_abs (Fin (- 450000000000000)) = Fin 450000000000000"
    by simp
  have m: "c_status (compare_prices (init_PriceValidator settings catalog_client)
      (Some (Fin 8549999999999999)) (Some (Fin 8999999999999999))) = U ''MATCH''"
    unfolding compare_prices_status default_tolerance rounded_quotient a
    by simp
  have r1: "rnd 8549999999999999 = Fin 8549999999999999"
    by (simp add: fl_eval)
  have r2: "rnd 8999999999999999 = Fin 8999999999999999"
    by (simp add: fl_eval)
  have e1: "\<not> (\<bar>8549999999999999 - 8999999999999999\<bar> / 8999999999999999 \<le> (5 / 100 :: real))"
    by simp
  have e2: "\<not> (\<bar>8549999999999999 - 8999999999999999\<bar> / 8999999999999999
          \<le> (3602879701896397 / 2 ^ 56 :: real))"
    by simp
  from m r1 r2 e1 e2 default_tolerance show ?thesis by blast
qed

lemma validate_loop_map:
  "validate_loop self sr ps acc = acc @ map (validate_one self sr) ps"
  by (induction ps arbitrary: acc) simp_all

lemma validate_one_coupling:
  assumes "v = validate_one self sr p"
  shows "(validacion v = OK_MARK \<longleftrightarrow> status v = U ''MATCH'')"
    "(validacion v = CROSS_MARK \<longleftrightarrow> status v = U ''PRICE_DIFF'')"
    "(validacion v = WARNING_SIGN \<longleftrightarrow> status v = U ''NOT_FOUND'' \<or> status v = U ''NO_PRICE'')"
    "(status v = U ''NOT_FOUND'' \<longrightarrow> producto_sistema v = None \<and> precio_sistema v = None
        \<and> diferencia v = None \<and> match_score v = None)"
  unfolding assms validate_one_def compare_prices_def Let_def
  using status_distinct mark_distinct
  by (auto split: list.splits option.splits)

lemma validate_products_Inr:
  assumes "validate_products self productos tienda = Inr validaciones"
  obtains sr where "validaciones = map (validate_one self sr) productos"
    "search_products_batch (qdrant self)
       (map (\<lambda>p. case p_nombre p of None \<Rightarrow> [] | Some n \<Rightarrow> n) productos)
       (Some (str_int tienda)) (search_limit self) (similarity_threshold self) = Inr sr"
  using assms unfolding validate_products_def Let_def
  by (auto split: sum.splits simp: validate_loop_map)

lemma str_nat_nonempty: "str_nat n \<noteq> []"
  by (subst str_nat.simps) simp

lemma str_int_nonempty: "str_int i \<noteq> []"
  by (simp add: str_int_def str_nat_nonempty)

lemma search_loop_Inr:
  assumes "search_loop client f l t qs results = Inr m"
  shows "(\<forall>q \<in> set qs. \<exists>hits. client q f l t = Inr hits \<and> m q = Some (map to_match hits))
       \<and> (\<forall>q. q \<notin> set qs \<longrightarrow> m q = results q)"
  using assms
proof (induction qs arbitrary: results)
  case Nil
  then show ?case by simp
next
  case (Cons q qs)
  then obtain hits where h: "client q f l t = Inr hits"
    and rest: "search_loop client f l t qs (results(q \<mapsto> map to_match hits)) = Inr m"
    by (auto split: sum.splits)
  from Cons.IH[OF rest]
  have a: "\<forall>q' \<in> set qs. \<exists>hits'. client q' f l t = Inr hits' \<and> m q' = Some (map to_match hits')"
    and b: "\<forall>q'. q' \<notin> set qs \<longrightarrow> m q' = (results(q \<mapsto> map to_match hits)) q'"
    by blast+
  have "m q = Some (map to_match hits)"
  proof (cases "q \<in> set qs")
    case True
    with a h show ?thesis by fastforce
  next
    case False
    with b show ?thesis by simp
  qed
  with a b h show ?case by auto
qed

lemma search_loop_Inl_iff:
  "(\<exists>e. search_loop client f l t qs results = Inl e)
     \<longleftrightarrow> (\<exists>q \<in> set qs. \<exists>e. client q f l t = Inl e)"
proof (induction qs arbitrary: results)
  case Nil
  then show ?case by simp
next
  case (Cons q qs)
  show ?case
  proof (cases "client q f l t")
    case (Inl e)
    then show ?thesis by auto
  next
    case (Inr hits)
    then have "(\<exists>e. search_loop client f l t (q # qs) results = Inl e)
        \<longleftrightarrow> (\<exists>e. search_loop client f l t qs (results(q \<mapsto> map to_match hits)) = Inl e)"
      by simp
    also have "\<dots> \<longleftrightarrow> (\<exists>q \<in> set qs. \<exists>e. client q f l t = Inl e)"
      by (rule Cons.IH)
    also have "\<dots> \<longleftrightarrow> (\<exists>q' \<in> set (q # qs). \<exists>e. client q' f l t = Inl e)"
      using Inr by auto
    finally show ?thesis .
  qed
qed

lemma search_loop_Inl_first:
  "search_loop client f l t qs results = Inl e
     \<longleftrightarrow> (\<exists>i < length qs. client (qs ! i) f l t = Inl e
            \<and> (\<forall>j < i. \<exists>hits. client (qs ! j) f l t = Inr hits))"
proof (induction qs arbitrary: results)
  case Nil
  then show ?case by simp
next
  case (Cons q qs)
  let ?R = "\<lambda>qs. \<exists>i < length qs. client (qs ! i) f l t = Inl e
            \<and> (\<forall>j < i. \<exists>hits. client (qs ! j) f l t = Inr hits)"
  show ?case
  proof (cases "client q f l t")
    case (Inl e')
    have "?R (q # qs) \<longleftrightarrow> e' = e"
    proof
      assume "?R (q # qs)"
      then obtain i where i: "i < length (q # qs)" "client ((q # qs) ! i) f l t = Inl e"
        and before: "\<forall>j < i. \<exists>hits. client ((q # qs) ! j) f l t = Inr hits"
        by blast
      show "e' = e"
      proof (cases i)
        case 0
        with i(2) Inl show ?thesis by simp
      next
        case (Suc i')
        with before have "\<exists>hits. client ((q # qs) ! 0) f l t = Inr hits" by blast
        with Inl show ?thesis by simp
      qed
    next
      assume "e' = e"
      with Inl have "0 < length (q # qs) \<and> client ((q # qs) ! 0) f l t = Inl e
          \<and> (\<forall>j < 0. \<exists>hits. client ((q # qs) ! j) f l t = Inr hits)"
        by simp
      then show "?R (q # qs)" by blast
    qed
    with Inl show ?thesis by simp
  next
    case (Inr hits)
    have "?R (q # qs) \<longleftrightarrow> ?R qs"
    proof
      assume "?R (q # qs)"
      then obtain i where i: "i < length (q # qs)" "client ((q # qs) ! i) f l t = Inl e"
        and before: "\<forall>j < i. \<exists>hits. client ((q # qs) ! j) f l t = Inr hits"
        by blast
      from i(2) Inr obtain i' where i': "i = Suc i'"
        by (cases i) simp_all
      have "\<forall>j < i'. \<exists>hits. client (qs ! j) f l t = Inr hits"
      proof (intro allI impI)
        fix j assume "j < i'"
        with i' have "Suc j < i" by simp
        with before have "\<exists>hits. client ((q # qs) ! Suc j) f l t = Inr hits" by blast
        then show "\<exists>hits. client (qs ! j) f l t = Inr hits" by simp
      qed
      with i i' show "?R qs" by auto
    next
      assume "?R qs"
      then obtain i where i: "i < length qs" "client (qs ! i) f l t = Inl e"
        and before: "\<forall>j < i. \<exists>hits. client (qs ! j) f l t = Inr hits"
        by blast
      have "\<forall>j < Suc i. \<exists>hits. client ((q # qs) ! j) f l t = Inr hits"
      proof (intro allI impI)
        fix j assume j: "j < Suc i"
        show "\<exists>hits. client ((q # qs) ! j) f l t = Inr hits"
        proof (cases j)
          case 0
          with Inr show ?thesis by simp
        next
          case (Suc j')
          with j before show ?thesis by simp
        qed
      qed
      moreover from i have "Suc i < length (q # qs)" "client ((q # qs) ! Suc i) f l t = Inl e"
        by simp_all
      ultimately show "?R (q # qs)" by blast
    qed
    moreover have "search_loop client f l t (q # qs) results = Inl e
        \<longleftrightarrow> search_loop client f l t qs (results(q \<mapsto> map to_match hits)) = Inl e"
      using Inr by simp
    ultimately show ?thesis using Cons.IH by simp
  qed
qed

lemma sorted_desc_hd_max:
  assumes "sorted_wrt (\<lambda>a b. hit_score b \<le> hit_score a) (h # hs)" and "c \<in> set (h # hs)"
  shows "hit_score c \<le> hit_score h"
  using assms by auto

lemmas eval_defs = validate_products_def search_products_batch_def validate_one_def
  compare_prices_def prices_match_def init_PriceValidator_def settings_def to_match_def
  example_hit_def example_producto_def fl_eval

lemma end_to_end:
  "validate_products (init_PriceValidator settings catalog_client)
       [example_producto (U ''HARINA'') (Some 20), example_producto (U ''ACEITE'') (Some 50)] 100
     = Inr end_to_end_results"
  by (simp add: eval_defs catalog_client_def end_to_end_results_def U_def)

text \<open>
  C2, as the code has it: when the batch search succeeds, \<open>validate_products\<close> returns
  exactly one result per input product, in input order. A named product whose query
  returned no candidate gets NOT\_FOUND; otherwise it is classified against the first
  candidate in the order the search capability returned them, which is the
  highest-similarity candidate whenever that list is sorted descending by similarity.
  The code does not sort the candidates itself.
\<close>

theorem validate_products_per_product:
  assumes ok: "validate_products self productos tienda = Inr validaciones"
  shows "length validaciones = length productos
    \<and> (\<forall>i < length productos.
         producto_imagen (validaciones ! i) =
           (case p_nombre (productos ! i) of None \<Rightarrow> U ''DESCONOCIDO'' | Some n \<Rightarrow> n)
         \<and> precio_imagen (validaciones ! i) = p_precio (productos ! i))
    \<and> (\<forall>i < length productos. \<forall>n. p_nombre (productos ! i) = Some n \<longrightarrow>
         (\<exists>hits. qdrant self n (Some (str_int tienda)) (search_limit self)
                    (similarity_threshold self) = Inr hits
            \<and> (case hits of
                 [] \<Rightarrow> status (validaciones ! i) = U ''NOT_FOUND''
               | best # _ \<Rightarrow>
                   producto_sistema (validaciones ! i) = Some (nombre (to_match best))
                 \<and> precio_sistema (validaciones ! i) = Some (precio (to_match best))
                 \<and> match_score (validaciones ! i) = Some (hit_score best)
                 \<and> validacion (validaciones ! i) =
                     c_validacion (compare_prices self (p_precio (productos ! i))
                                     (Some (precio (to_match best))))
                 \<and> diferencia (validaciones ! i) =
                     c_diferencia (compare_prices self (p_precio (productos ! i))
                                     (Some (precio (to_match best))))
                 \<and> status (validaciones ! i) =
                     c_status (compare_prices self (p_precio (productos ! i))
                                 (Some (precio (to_match best))))
                 \<and> (sorted_wrt (\<lambda>a b. hit_score b \<le> hit_score a) hits \<longrightarrow>
                      (\<forall>c \<in> set hits. hit_score c \<le> hit_score best)))))"
proof -
  let ?qs = "map (\<lambda>p. case p_nombre p of None \<Rightarrow> [] | Some n \<Rightarrow> n) productos"
  let ?f = "Some (str_int tienda)"
  from ok obtain sr where vs: "validaciones = map (validate_one self sr) productos"
    and sr: "search_products_batch (qdrant self) ?qs ?f (search_limit self)
               (similarity_threshold self) = Inr sr"
    by (rule validate_products_Inr)
  from sr have loop: "search_loop (qdrant self) ?f (search_limit self)
      (similarity_threshold self) ?qs Map.empty = Inr sr"
    by (simp add: search_products_batch_def str_int_nonempty)
  have len: "length validaciones = length productos" using vs by simp
  have names: "\<forall>i < length productos.
         producto_imagen (validaciones ! i) =
           (case p_nombre (productos ! i) of None \<Rightarrow> U ''DESCONOCIDO'' | Some n \<Rightarrow> n)
         \<and> precio_imagen (validaciones ! i) = p_precio (productos ! i)"
    using vs by (auto simp: validate_one_def Let_def split: list.splits option.splits)
  have cands: "\<exists>hits. qdrant self n ?f (search_limit self) (similarity_threshold self) = Inr hits
            \<and> (case hits of
                 [] \<Rightarrow> status (validaciones ! i) = U ''NOT_FOUND''
               | best # _ \<Rightarrow>
                   producto_sistema (validaciones ! i) = Some (nombre (to_match best))
                 \<and> precio_sistema (validaciones ! i) = Some (precio (to_match best))
                 \<and> match_score (validaciones ! i) = Some (hit_score best)
                 \<and> validacion (validaciones ! i) =
                     c_validacion (compare_prices self (p_precio (productos ! i))
                                     (Some (precio (to_match best))))
                 \<and> diferencia (validaciones ! i) =
                     c_diferencia (compare_prices self (p_precio (productos ! i))
                                     (Some (precio (to_match best))))
                 \<and> status (validaciones ! i) =
                     c_status (compare_prices self (p_precio (productos ! i))
                                 (Some (precio (to_match best))))
                 \<and> (sorted_wrt (\<lambda>a b. hit_score b \<le> hit_score a) hits \<longrightarrow>
                      (\<forall>c \<in> set hits. hit_score c \<le> hit_score best)))"
    if i: "i < length productos" and n: "p_nombre (productos ! i) = Some n" for i n
  proof -
    from i n have "n \<in> set ?qs"
      by (metis (mono_tags, lifting) length_map nth_map nth_mem option.simps(5))
    with search_loop_Inr[OF loop] obtain hits
      where h: "qdrant self n ?f (search_limit self) (similarity_threshold self) = Inr hits"
        and m: "sr n = Some (map to_match hits)"
      by blast
    have v: "validaciones ! i = validate_one self sr (productos ! i)"
      using vs i by simp
    show ?thesis
    proof (cases hits)
      case Nil
      with h m n v show ?thesis by (simp add: validate_one_def)
    next
      case (Cons best rest)
      have "\<forall>c \<in> set hits. hit_score c \<le> hit_score best"
        if "sorted_wrt (\<lambda>a b. hit_score b \<le> hit_score a) hits"
        using that sorted_desc_hd_max unfolding Cons by blast
      moreover have "score (to_match best) = hit_score best"
        by (simp add: to_match_def Let_def)
      ultimately show ?thesis
        using h m n v Cons by (simp add: validate_one_def Let_def)
    qed
  qed
  from len names cands show ?thesis by blast
qed

theorem validate_products_per_product_witness:
  "validate_products (init_PriceValidator settings catalog_client)
       [example_producto (U ''HARINA'') (Some 20), example_producto (U ''ACEITE'') (Some 50)] 100
     = Inr end_to_end_results
   \<and> length end_to_end_results = 2
   \<and> producto_imagen (end_to_end_results ! 0) = U ''HARINA''
   \<and> producto_imagen (end_to_end_results ! 1) = U ''ACEITE''
   \<and> status (end_to_end_results ! 0) = U ''MATCH''
   \<and> status (end_to_end_results ! 1) = U ''NOT_FOUND''"
  using validate_products_per_product[OF end_to_end] end_to_end
  by (simp add: end_to_end_results_def)

text \<open>
  The claim C2 as stated fails: for hits returned in the order (0.8, 0.9) the product is
  classified against the first hit, of similarity 0.8, not against the best one.
\<close>

theorem validate_products_unsorted_counterexample:
  "qdrant (init_PriceValidator settings unsorted_client) (U ''HARINA'') (Some (str_int 100)) 5 (7 / 10)
     = Inr [example_hit (U ''1'') (U ''HARINA INTEGRAL'') 30 (8 / 10),
            example_hit (U ''2'') (U ''HARINA'') 20 (9 / 10)]
   \<and> validate_products (init_PriceValidator settings unsorted_client)
       [example_producto (U ''HARINA'') (Some 20)] 100
     = Inr [\<lparr>producto_imagen = U ''HARINA'', precio_imagen = Some (Fin 20),
             producto_sistema = Some (U ''HARINA INTEGRAL''), precio_sistema = Some (Fin 30),
             validacion = CROSS_MARK, diferencia = Some (Fin 10),
             status = U ''PRICE_DIFF'', match_score = Some (8 / 10)\<rparr>]"
  by (simp add: eval_defs unsorted_client_def)

text \<open>
  C8, as the code has it: \<open>validate_products\<close> ends in the error \<open>e\<close> exactly when the
  search call of some product of the batch raises \<open>e\<close> and the search calls of all products
  before it returned: the batch aborts with the error of the first failing search call,
  unchanged, and no result is then produced for any product. In particular the batch fails
  exactly when the search call fails for the query of some product of the batch.
\<close>

theorem validate_products_all_or_nothing:
  "(validate_products self productos tienda = Inl e
     \<longleftrightarrow> (\<exists>i < length productos.
            qdrant self (case p_nombre (productos ! i) of None \<Rightarrow> [] | Some n \<Rightarrow> n)
              (Some (str_int tienda)) (search_limit self) (similarity_threshold self) = Inl e
            \<and> (\<forall>j < i. \<exists>hits.
                 qdrant self (case p_nombre (productos ! j) of None \<Rightarrow> [] | Some n \<Rightarrow> n)
                   (Some (str_int tienda)) (search_limit self) (similarity_threshold self)
                 = Inr hits)))
   \<and> ((\<exists>e. validate_products self productos tienda = Inl e)
     \<longleftrightarrow> (\<exists>p \<in> set productos. \<exists>e.
            qdrant self (case p_nombre p of None \<Rightarrow> [] | Some n \<Rightarrow> n) (Some (str_int tienda))
              (search_limit self) (similarity_threshold self) = Inl e))"
proof
  let ?q = "\<lambda>p. case p_nombre p of None \<Rightarrow> [] | Some n \<Rightarrow> n"
  let ?call = "\<lambda>q. qdrant self q (Some (str_int tienda)) (search_limit self)
      (similarity_threshold self)"
  have loop: "validate_products self productos tienda = Inl e
     \<longleftrightarrow> search_loop (qdrant self) (Some (str_int tienda)) (search_limit self)
            (similarity_threshold self) (map ?q productos) Map.empty = Inl e" for e
    by (auto simp: validate_products_def search_products_batch_def str_int_nonempty Let_def
          split: sum.splits)
  have "validate_products self productos tienda = Inl e
     \<longleftrightarrow> (\<exists>i < length (map ?q productos). ?call (map ?q productos ! i) = Inl e
            \<and> (\<forall>j < i. \<exists>hits. ?call (map ?q productos ! j) = Inr hits))"
    unfolding loop by (rule search_loop_Inl_first)
  also have "\<dots> \<longleftrightarrow> (\<exists>i < length productos. ?call (?q (productos ! i)) = Inl e
            \<and> (\<forall>j < i. \<exists>hits. ?call (?q (productos ! j)) = Inr hits))"
    by (intro ex_cong1) (auto simp: nth_map)
  finally show "validate_products self productos tienda = Inl e
     \<longleftrightarrow> (\<exists>i < length productos. ?call (?q (productos ! i)) = Inl e
            \<and> (\<forall>j < i. \<exists>hits. ?call (?q (productos ! j)) = Inr hits))" .
  have "(\<exists>e. validate_products self productos tienda = Inl e)
     \<longleftrightarrow> (\<exists>q \<in> set (map ?q productos). \<exists>e. ?call q = Inl e)"
    unfolding loop by (rule search_loop_Inl_iff)
  also have "\<dots> \<longleftrightarrow> (\<exists>p \<in> set productos. \<exists>e. ?call (?q p) = Inl e)"
    by simp
  finally show "(\<exists>e. validate_products self productos tienda = Inl e)
     \<longleftrightarrow> (\<exists>p \<in> set productos. \<exists>e. ?call (?q p) = Inl e)" .
qed

theorem validate_products_all_or_nothing_witness:
  "validate_products (init_PriceValidator settings failing_client)
       [example_producto (U ''HARINA'') (Some 20), example_producto (U ''ACEITE'') (Some 50)] 100
     = Inl CapabilityError
   \<and> validate_products (init_PriceValidator settings failing_client)
       [example_producto (U ''HARINA'') (Some 20), example_producto (U ''ACEITE'') (Some 50)] 100
     \<noteq> Inl TypeError"
proof -
  let ?self = "init_PriceValidator settings failing_client"
  let ?ps = "[example_producto (U ''HARINA'') (Some 20), example_producto (U ''ACEITE'') (Some 50)]"
  let ?call = "\<lambda>p. qdrant ?self (case p_nombre p of None \<Rightarrow> [] | Some n \<Rightarrow> n)
      (Some (str_int 100)) (search_limit ?self) (similarity_threshold ?self)"
  have second: "?call (?ps ! 1) = Inl CapabilityError"
    by (simp add: init_PriceValidator_def settings_def example_producto_def failing_client_def
        U_def)
  have first: "?call (?ps ! 0) = Inr [example_hit (U ''1'') (U ''HARINA'') 20 (9 / 10)]"
    by (simp add: init_PriceValidator_def settings_def example_producto_def failing_client_def
        U_def)
  have before: "\<forall>j < (1::nat). \<exists>hits. ?call (?ps ! j) = Inr hits"
    using first by simp
  have "\<exists>i < length ?ps. ?call (?ps ! i) = Inl CapabilityError
      \<and> (\<forall>j < i. \<exists>hits. ?call (?ps ! j) = Inr hits)"
  proof (intro exI conjI)
    show "1 < length ?ps" by simp
    show "?call (?ps ! 1) = Inl CapabilityError" by (rule second)
    show "\<forall>j < (1::nat). \<exists>hits. ?call (?ps ! j) = Inr hits" by (rule before)
  qed
  then have "validate_products ?self ?ps 100 = Inl CapabilityError"
    using validate_products_all_or_nothing[of ?self ?ps 100 CapabilityError] by blast
  then show ?thesis by simp
qed

text \<open>
  The claim C8 as stated fails: with a capability that answers the query HARINA and fails
  for the query ACEITE, the whole batch ends in the error of the second search call.
\<close>

theorem validate_products_batch_abort_counterexample:
  "failing_client (U ''HARINA'') (Some (str_int 100)) 5 (7 / 10)
     = Inr [example_hit (U ''1'') (U ''HARINA'') 20 (9 / 10)]
   \<and> failing_client (U ''ACEITE'') (Some (str_int 100)) 5 (7 / 10) = Inl CapabilityError
   \<and> validate_products (init_PriceValidator settings failing_client)
       [example_producto (U ''HARINA'') (Some 20), example_producto (U ''ACEITE'') (Some 50)] 100
     = Inl CapabilityError"
  by (simp add: eval_defs failing_client_def U_def)

text \<open>
  C10: in every result of \<open>validate_products\<close> the verdict symbol follows the status:
  the check mark exactly for MATCH, the cross exactly for PRICE\_DIFF, the warning sign
  exactly for NOT\_FOUND or NO\_PRICE; and a NOT\_FOUND result has no system product, no
  system price, no difference and no match score.
\<close>

theorem validate_products_verdict_coupling:
  assumes "validate_products self productos tienda = Inr validaciones"
    and "v \<in> set validaciones"
  shows "(validacion v = OK_MARK \<longleftrightarrow> status v = U ''MATCH'')
    \<and> (validacion v = CROSS_MARK \<longleftrightarrow> status v = U ''PRICE_DIFF'')
    \<and> (validacion v = WARNING_SIGN \<longleftrightarrow> status v = U ''NOT_FOUND'' \<or> status v = U ''NO_PRICE'')
    \<and> (status v = U ''NOT_FOUND'' \<longrightarrow> producto_sistema v = None \<and> precio_sistema v = None
        \<and> diferencia v = None \<and> match_score v = None)"
proof -
  from assms(1) obtain sr where "validaciones = map (validate_one self sr) productos"
    by (rule validate_products_Inr)
  with assms(2) obtain p where v: "v = validate_one self sr p" by auto
  show ?thesis
    using validate_one_coupling[OF v] by blast
qed

theorem validate_products_verdict_coupling_witness:
  "validate_products (init_PriceValidator settings catalog_client)
       [example_producto (U ''HARINA'') (Some 20), example_producto (U ''ACEITE'') (Some 50)] 100
     = Inr end_to_end_results
   \<and> end_to_end_results ! 1 \<in> set end_to_end_results
   \<and> validacion (end_to_end_results ! 1) = WARNING_SIGN
   \<and> status (end_to_end_results ! 1) = U ''NOT_FOUND''
   \<and> producto_sistema (end_to_end_results ! 1) = None
   \<and> precio_sistema (end_to_end_results ! 1) = None
   \<and> diferencia (end_to_end_results ! 1) = None
   \<and> match_score (end_to_end_results ! 1) = None"
proof -
  have m: "end_to_end_results ! 1 \<in> set end_to_end_results"
    by (simp add: end_to_end_results_def)
  have s: "status (end_to_end_results ! 1) = U ''NOT_FOUND''"
    by (simp add: end_to_end_results_def)
  from validate_products_verdict_coupling[OF end_to_end m] s end_to_end m
  show ?thesis by blast
qed

section \<open>Evaluation rules\<close>

lemmas str_defs = U_def is_space_def is_digit_def digit_value_def decimal_zeros_def
  is_word_def lower_cp_def upper_cp_def lower_def upper_def strip_def lstrip_def rstrip_def
  rstrip_chars_def count_char_def

lemmas re_defs = re_sub_def re_search_def re_findall_def
  lit_def seqs_def alts_def ws0_def ws1_def digits1_def
  word_boundary_def group_def remaining_def match_apply

lemmas json_defs = json_loads_def skip_ws_def json_ws_def ascii_digit_def hex_value_def
  simple_escape_def low_surrogate_def scan_number_def nat_of_digits_def dict_set_def dict_get_def

lemmas slack_defs = extract_tienda_id_def tienda_patterns_def repeat_3_4_def int_of_digits_def
  clean_search_text_def store_reference_def frases_remover_def precio_de_def a_acute_def
  articles4_def articles4'_def

section \<open>Properties of structured-extraction recovery\<close>

lemma truncated_json_fence: "re_sub False pat_json_fence [] truncated_input = truncated_input"
  by (simp add: truncated_input_def str_defs re_defs pat_json_fence_def)
lemma truncated_end_fence: "re_sub False pat_end_fence [] truncated_input = truncated_input"
  by (simp add: truncated_input_def str_defs re_defs pat_end_fence_def)
lemma truncated_strip: "strip truncated_input = truncated_input"
  by (simp add: truncated_input_def str_defs)
lemma truncated_loads: "json_loads truncated_input = None"
  by (simp add: truncated_input_def str_defs json_defs)
lemma truncated_counts: "count_char 91 truncated_input = 2" "count_char 93 truncated_input = 0"
  "count_char 123 truncated_input = 3" "count_char 125 truncated_input = 1"
  by (simp_all add: truncated_input_def str_defs)
lemma truncated_rstrip: "rstrip_chars [44] (rstrip truncated_input) = truncated_input"
  by (simp add: truncated_input_def str_defs)
lemma repeat_char_eval: "repeat_char 125 2 = [125, 125]" "repeat_char 93 2 = [93, 93]" "repeat_char 125 1 = [125]"
  by (simp_all add: repeat_char.simps)
lemma truncated_closed_loads: "json_loads (truncated_input @ [125, 125, 93, 93]) = None"
  by (simp add: truncated_input_def str_defs json_defs)
lemma truncated_rfind: "rfind (U ''},'') truncated_input = 57"
  by (simp add: truncated_input_def str_defs rfind_def)
lemma truncated_regex:
  "extract_products_regex truncated_input = [example_producto (U ''X'') (Some 1)]"
  by (simp add: truncated_input_def str_defs re_defs extract_products_regex_def Let_def
      pat_producto_def float_of_cleaned_def example_producto_def rnd_one)

lemma truncated_take: "take 58 truncated_input = complete_prefix"
  by (simp add: truncated_input_def complete_prefix_def U_def)
lemma prefix_counts: "count_char 91 complete_prefix = 2" "count_char 93 complete_prefix = 0"
  "count_char 123 complete_prefix = 2" "count_char 125 complete_prefix = 1"
  by (simp_all add: complete_prefix_def str_defs)
lemma prefix_closed_loads: "json_loads (complete_prefix @ [125, 93, 93]) = None"
  by (simp add: complete_prefix_def str_defs json_defs)

lemma repair_truncated_input: "repair_truncated_json truncated_input = PNone"
  by (simp add: repair_truncated_json_def Let_def truncated_counts truncated_rstrip repeat_char_eval truncated_closed_loads truncated_rfind truncated_take prefix_counts prefix_closed_loads)

lemma x_record_deduplicated:
  "deduplicate_products [example_producto (U ''X'') (Some 1)] = [example_producto (U ''X'') (Some 1)]"
proof -
  have "nombre_of (example_producto (U ''X'') (Some 1)) = U ''X''"
    by (simp add: nombre_of_def example_producto_def str_defs)
  moreover have "key_of (U ''X'') = U ''X''"
    by (simp add: key_of_def str_defs re_defs)
  moreover have "\<not> invalid_nombre (U ''X'')"
    by (simp add: invalid_nombre_def U_def)
  ultimately show ?thesis
    by (simp add: deduplicate_products_def Let_def)
qed

text \<open>
  C4: on the truncated answer of the specification, cut in the middle of the second
  record, extraction returns without raising, and the list it returns holds the complete
  record of name X and price 1.0. Both repairs fail on this text (the closing braces are
  appended before the closing brackets), and the record is recovered by the scan for
  name and price pairs, under the category General.
\<close>

theorem parse_gemini_response_truncated:
  "parse_gemini_response repr truncated_input = Inr [example_producto (U ''X'') (Some 1)]
   \<and> p_nombre (example_producto (U ''X'') (Some 1)) = Some (U ''X'')
   \<and> p_precio (example_producto (U ''X'') (Some 1)) = Some (Fin 1)
   \<and> deduplicate_products [example_producto (U ''X'') (Some 1)]
       = [example_producto (U ''X'') (Some 1)]"
  by (simp add: parse_gemini_response_def Let_def truncated_json_fence truncated_end_fence
        truncated_strip truncated_loads repair_truncated_input truncated_regex
        x_record_deduplicated)
     (simp add: example_producto_def)

lemma non_iterable_json_fence: "re_sub False pat_json_fence [] non_iterable_input = non_iterable_input"
  by (simp add: non_iterable_input_def str_defs re_defs pat_json_fence_def)
lemma non_iterable_end_fence: "re_sub False pat_end_fence [] non_iterable_input = non_iterable_input"
  by (simp add: non_iterable_input_def str_defs re_defs pat_end_fence_def)
lemma non_iterable_strip: "strip non_iterable_input = non_iterable_input"
  by (simp add: non_iterable_input_def str_defs)
lemma non_iterable_loads: "json_loads non_iterable_input = Some (PDict [(U ''productos'', PInt 1)])"
  by (simp add: non_iterable_input_def str_defs json_defs)

lemma blank_name_json_fence: "re_sub False pat_json_fence [] blank_name_input = blank_name_input"
  by (simp add: blank_name_input_def str_defs re_defs pat_json_fence_def)
lemma blank_name_end_fence: "re_sub False pat_end_fence [] blank_name_input = blank_name_input"
  by (simp add: blank_name_input_def str_defs re_defs pat_end_fence_def)
lemma blank_name_strip: "strip blank_name_input = blank_name_input"
  by (simp add: blank_name_input_def str_defs)
lemma blank_name_loads: "json_loads blank_name_input = None"
  by (simp add: blank_name_input_def str_defs json_defs)
lemma blank_name_counts: "count_char 91 blank_name_input = 0" "count_char 93 blank_name_input = 0"
  "count_char 123 blank_name_input = 0" "count_char 125 blank_name_input = 0"
  by (simp_all add: blank_name_input_def str_defs)
lemma blank_name_rstrip: "rstrip_chars [44] (rstrip blank_name_input) = blank_name_input"
  by (simp add: blank_name_input_def str_defs)
lemma repeat_char_zero: "repeat_char c 0 = []"
  by (simp add: repeat_char.simps)
lemma blank_name_rfind: "rfind (U ''},'') blank_name_input = - 1"
  by (simp add: blank_name_input_def str_defs rfind_def)
lemma blank_name_repair: "repair_truncated_json blank_name_input = PNone"
  by (simp add: repair_truncated_json_def Let_def blank_name_loads blank_name_counts blank_name_rstrip repeat_char_zero blank_name_rfind)
lemma blank_name_regex: "extract_products_regex blank_name_input = [example_producto [] (Some 1)]"
  by (simp add: blank_name_input_def str_defs re_defs extract_products_regex_def Let_def
      pat_producto_def float_of_cleaned_def example_producto_def rnd_one)

text \<open>
  C3 fails on the code at two inputs. The well-formed text \<open>{"productos": 1}\<close> makes the
  loop over the products iterate over a number, which raises \<open>TypeError\<close>: the error
  leaves \<open>_parse_gemini_response\<close>. The fragment \<open>"nombre": " ", "precio": 1\<close> is
  recovered by the scan for name and price pairs, which returns a record whose name is
  empty: the filter of empty names is applied on the decoded path only.
\<close>

theorem parse_gemini_response_failing_inputs:
  "parse_gemini_response repr non_iterable_input = Inl TypeError
   \<and> parse_gemini_response repr blank_name_input = Inr [example_producto [] (Some 1)]
   \<and> p_nombre (example_producto [] (Some 1)) = Some []"
  by (simp add: parse_gemini_response_def Let_def non_iterable_json_fence non_iterable_end_fence non_iterable_strip non_iterable_loads blank_name_json_fence blank_name_end_fence blank_name_strip blank_name_loads blank_name_repair blank_name_regex
        example_producto_def dict_get_def U_def)

section \<open>Properties of deduplication\<close>

lemma dedup_loop_first_occurrences:
  "dedup_loop ps seen unique = unique @ first_occurrences valid_producto producto_key seen ps"
  by (induction ps arbitrary: seen unique)
     (simp_all add: Let_def valid_producto_def producto_key_def)

lemma dedup_results_loop_first_occurrences:
  "dedup_results_loop vs seen unique = unique @ first_occurrences valid_result result_key seen vs"
  by (induction vs arbitrary: seen unique) (simp_all add: Let_def valid_result_def)

lemma first_occurrences_props:
  "y \<in> set (first_occurrences ok key seen xs) \<Longrightarrow> ok y \<and> key y \<notin> seen \<and> y \<in> set xs"
  by (induction xs arbitrary: seen) (auto split: if_splits)

lemma first_occurrences_distinct:
  "distinct (map key (first_occurrences ok key seen xs))"
proof (induction xs arbitrary: seen)
  case Nil
  then show ?case by simp
next
  case (Cons x xs)
  have "key x \<notin> key ` set (first_occurrences ok key (insert (key x) seen) xs)"
    using first_occurrences_props[of _ ok key "insert (key x) seen" xs] by fastforce
  with Cons show ?case by simp
qed

lemma first_occurrences_subseq: "subseq (first_occurrences ok key seen xs) xs"
  by (induction xs arbitrary: seen) auto

lemma first_occurrences_complete:
  "x \<in> set xs \<Longrightarrow> ok x \<Longrightarrow> key x \<notin> seen \<Longrightarrow>
   \<exists>y \<in> set (first_occurrences ok key seen xs). key y = key x"
proof (induction xs arbitrary: seen)
  case Nil
  then show ?case by simp
next
  case (Cons a xs)
  show ?case
  proof (cases "ok a \<and> key a \<notin> seen")
    case True
    show ?thesis
    proof (cases "key a = key x")
      case True
      with \<open>ok a \<and> key a \<notin> seen\<close> show ?thesis by auto
    next
      case False
      with Cons.prems True have "x \<in> set xs" by auto
      from Cons.IH[OF this Cons.prems(2), of "insert (key a) seen"] False Cons.prems(3) True
      show ?thesis by auto
    qed
  next
    case False
    with Cons.prems have "x \<in> set xs" by auto
    from Cons.IH[OF this Cons.prems(2,3)] False show ?thesis by auto
  qed
qed

lemma first_occurrences_first:
  "y \<in> set (first_occurrences ok key seen xs) \<Longrightarrow>
   find (\<lambda>x. ok x \<and> key x = key y) xs = Some y"
proof (induction xs arbitrary: seen)
  case Nil
  then show ?case by simp
next
  case (Cons a xs)
  show ?case
  proof (cases "ok a \<and> key a \<notin> seen")
    case True
    show ?thesis
    proof (cases "y = a")
      case True
      with \<open>ok a \<and> key a \<notin> seen\<close> show ?thesis by simp
    next
      case False
      with Cons.prems True
      have y: "y \<in> set (first_occurrences ok key (insert (key a) seen) xs)" by simp
      from first_occurrences_props[OF y] have "key a \<noteq> key y" by auto
      with Cons.IH[OF y] show ?thesis by simp
    qed
  next
    case False
    with Cons.prems have y: "y \<in> set (first_occurrences ok key seen xs)" by simp
    from first_occurrences_props[OF y] False have "\<not> (ok a \<and> key a = key y)" by auto
    with Cons.IH[OF y] show ?thesis by auto
  qed
qed

lemma first_occurrences_fixed:
  "\<forall>y \<in> set ys. ok y \<and> key y \<notin> seen \<Longrightarrow> distinct (map key ys) \<Longrightarrow>
   first_occurrences ok key seen ys = ys"
proof (induction ys arbitrary: seen)
  case Nil
  then show ?case by simp
next
  case (Cons a ys)
  have "key a \<notin> key ` set ys" using Cons.prems(2) by simp
  then have "\<And>y. y \<in> set ys \<Longrightarrow> key y \<noteq> key a" by (metis imageI)
  then have "\<forall>y \<in> set ys. ok y \<and> key y \<notin> insert (key a) seen"
    using Cons.prems(1) by simp
  moreover have "distinct (map key ys)" using Cons.prems by simp
  ultimately have "first_occurrences ok key (insert (key a) seen) ys = ys"
    by (rule Cons.IH)
  moreover have "ok a \<and> key a \<notin> seen" using Cons.prems by simp
  ultimately show ?case by simp
qed

lemma first_occurrences_idem:
  "first_occurrences ok key {} (first_occurrences ok key {} xs) = first_occurrences ok key {} xs"
  by (rule first_occurrences_fixed)
     (use first_occurrences_props[of _ ok key "{}" xs] first_occurrences_distinct in auto)

text \<open>
  C5: deduplication is idempotent, for the records of an extraction
  (\<open>_deduplicate_products\<close>) and for validation results (\<open>_deduplicate_results\<close>):
  applying it twice equals applying it once.
\<close>

theorem deduplicate_idempotent:
  "deduplicate_products (deduplicate_products X) = deduplicate_products X
   \<and> deduplicate_results (deduplicate_results V) = deduplicate_results V"
  by (simp add: deduplicate_products_def deduplicate_results_def
        dedup_loop_first_occurrences dedup_results_loop_first_occurrences first_occurrences_idem)

text \<open>
  C6, as the code has it: the result of record deduplication is a subsequence of the
  input (so it is no longer, and the order is kept); it drops every record whose
  upper-cased, trimmed name, before its runs of white space are collapsed, is empty or
  one of NULL, NONE, NO VISIBLE, NO LEGIBLE; the canonical names (white space collapsed)
  of the records kept are pairwise different; every other record of the input has its
  canonical name among them; and each record kept is the first record of the input that
  is not dropped and has that canonical name.
\<close>

theorem deduplicate_products_first_occurrences:
  assumes "unique = deduplicate_products products"
  shows "subseq unique products
    \<and> length unique \<le> length products
    \<and> (\<forall>p \<in> set products. invalid_nombre (nombre_of p) \<longrightarrow> p \<notin> set unique)
    \<and> distinct (map (\<lambda>p. key_of (nombre_of p)) unique)
    \<and> (\<forall>p \<in> set products. \<not> invalid_nombre (nombre_of p) \<longrightarrow>
          (\<exists>q \<in> set unique. key_of (nombre_of q) = key_of (nombre_of p)))
    \<and> (\<forall>q \<in> set unique.
          find (\<lambda>p. \<not> invalid_nombre (nombre_of p) \<and> key_of (nombre_of p) = key_of (nombre_of q))
            products = Some q)"
proof -
  have u: "unique = first_occurrences valid_producto producto_key {} products"
    using assms by (simp add: deduplicate_products_def dedup_loop_first_occurrences)
  have s: "subseq unique products" unfolding u by (rule first_occurrences_subseq)
  then have l: "length unique \<le> length products" by (rule list_emb_length)
  have i: "\<forall>p \<in> set products. invalid_nombre (nombre_of p) \<longrightarrow> p \<notin> set unique"
    unfolding u using first_occurrences_props[of _ valid_producto producto_key "{}" products]
    by (auto simp: valid_producto_def)
  have d: "distinct (map (\<lambda>p. key_of (nombre_of p)) unique)"
    unfolding u using first_occurrences_distinct[of producto_key valid_producto "{}" products]
    by (simp add: producto_key_def[abs_def])
  have c: "\<forall>p \<in> set products. \<not> invalid_nombre (nombre_of p) \<longrightarrow>
          (\<exists>q \<in> set unique. key_of (nombre_of q) = key_of (nombre_of p))"
    unfolding u
    using first_occurrences_complete[of _ products valid_producto producto_key "{}"]
    by (auto simp: valid_producto_def producto_key_def)
  have f: "\<forall>q \<in> set unique.
          find (\<lambda>p. \<not> invalid_nombre (nombre_of p) \<and> key_of (nombre_of p) = key_of (nombre_of q))
            products = Some q"
    unfolding u
    using first_occurrences_first[of _ valid_producto producto_key "{}" products]
    by (auto simp: valid_producto_def producto_key_def)
  from s l i d c f show ?thesis by blast
qed

lemma example_nombres: "nombre_of (example_producto (U ''Harina  de trigo'') p) = U ''HARINA  DE TRIGO''"
  "nombre_of (example_producto (U ''null'') p) = U ''NULL''"
  "nombre_of (example_producto (U '' HARINA DE   TRIGO '') p) = U ''HARINA DE   TRIGO''"
  "nombre_of (example_producto (U ''Aceite'') p) = U ''ACEITE''"
  "nombre_of (example_producto (U ''no  visible'') p) = U ''NO  VISIBLE''"
  by (simp_all add: nombre_of_def example_producto_def str_defs)

lemma example_keys: "key_of (U ''HARINA  DE TRIGO'') = U ''HARINA DE TRIGO''"
  "key_of (U ''HARINA DE   TRIGO'') = U ''HARINA DE TRIGO''"
  "key_of (U ''ACEITE'') = U ''ACEITE''"
  "key_of (U ''NO  VISIBLE'') = U ''NO VISIBLE''"
  by (simp_all add: key_of_def str_defs re_defs)

lemma example_validity: "\<not> invalid_nombre (U ''HARINA  DE TRIGO'')" "invalid_nombre (U ''NULL'')"
  "\<not> invalid_nombre (U ''HARINA DE   TRIGO'')" "\<not> invalid_nombre (U ''ACEITE'')"
  "\<not> invalid_nombre (U ''NO  VISIBLE'')" "invalid_nombre (U ''NO VISIBLE'')"
  by (simp_all add: invalid_nombre_def U_def)

lemma example_keys_differ: "U ''ACEITE'' \<noteq> U ''HARINA DE TRIGO''"
  by (simp add: U_def)

lemma dedup_example_result:
  "[example_producto (U ''Harina  de trigo'') (Some 20), example_producto (U ''Aceite'') (Some 50)]
     = deduplicate_products dedup_example"
  by (simp add: deduplicate_products_def dedup_example_def Let_def example_nombres example_keys example_validity example_keys_differ)

theorem deduplicate_products_first_occurrences_witness:
  "[example_producto (U ''Harina  de trigo'') (Some 20), example_producto (U ''Aceite'') (Some 50)]
     = deduplicate_products dedup_example
   \<and> subseq [example_producto (U ''Harina  de trigo'') (Some 20),
              example_producto (U ''Aceite'') (Some 50)] dedup_example
   \<and> length [example_producto (U ''Harina  de trigo'') (Some 20),
              example_producto (U ''Aceite'') (Some 50)] \<le> length dedup_example
   \<and> distinct (map (\<lambda>p. key_of (nombre_of p))
        [example_producto (U ''Harina  de trigo'') (Some 20),
         example_producto (U ''Aceite'') (Some 50)])"
  using deduplicate_products_first_occurrences[OF dedup_example_result] dedup_example_result
  by blast

text \<open>
  The claim C6 as stated fails: the name \<open>no  visible\<close>, with two spaces, has the
  canonical name NO VISIBLE, a sentinel, and the record is kept.
\<close>

theorem deduplicate_products_sentinel_counterexample:
  "key_of (strip (upper (U ''no  visible''))) = U ''NO VISIBLE''
   \<and> deduplicate_products [example_producto (U ''no  visible'') None]
       = [example_producto (U ''no  visible'') None]"
proof -
  have "strip (upper (U ''no  visible'')) = U ''NO  VISIBLE''"
    by (simp add: str_defs)
  then show ?thesis
    by (simp add: deduplicate_products_def Let_def example_nombres example_keys example_validity)
qed

section \<open>Properties of intent parsing\<close>

lemma tienda_loop_range:
  "tienda_loop patterns text_lower = Some n \<Longrightarrow> 1 \<le> n \<and> n \<le> 9999"
  by (induction patterns) (auto simp: Let_def split: option.splits if_splits)

lemma extract_tienda_id_range:
  "extract_tienda_id text = Some n \<Longrightarrow> 1 \<le> n \<and> n \<le> 9999"
  by (auto simp: extract_tienda_id_def split: if_splits dest: tienda_loop_range)

lemma tienda_810: "extract_tienda_id (U ''tienda 810 ayuda'') = Some 810"
  by (simp add: str_defs re_defs slack_defs)

lemma ayuda_present: "contains (U ''ayuda'') (lower (U ''tienda 810 ayuda''))"
  by (simp add: str_defs)

lemma ayuda_alone: "extract_tienda_id (U ''ayuda'') = None"
  by (simp add: str_defs re_defs slack_defs)

lemma ayuda_greeting: "is_greeting_or_help (U ''ayuda'')"
  by (simp add: is_greeting_or_help_def truthy_id_def ayuda_alone Let_def)
     (simp add: greetings_def str_defs)

text \<open>
  C7: a text from which a store identifier is extracted is never classified as a
  greeting or help request, whatever greeting words it holds. The text
  \<open>tienda 810 ayuda\<close> holds the help word \<open>ayuda\<close> and the store 810, and is not
  classified as a greeting.
\<close>

theorem store_id_overrides_greeting:
  "(extract_tienda_id text \<noteq> None \<longrightarrow> \<not> is_greeting_or_help text)
   \<and> extract_tienda_id (U ''tienda 810 ayuda'') = Some 810
   \<and> contains (U ''ayuda'') (lower (U ''tienda 810 ayuda''))
   \<and> U ''ayuda'' \<in> set greetings
   \<and> \<not> is_greeting_or_help (U ''tienda 810 ayuda'')"
proof -
  have gen: "\<not> is_greeting_or_help t" if "extract_tienda_id t \<noteq> None" for t
  proof -
    from that obtain n where n: "extract_tienda_id t = Some n" by auto
    with extract_tienda_id_range have "n \<noteq> 0" by fastforce
    with n show ?thesis by (simp add: is_greeting_or_help_def truthy_id_def Let_def)
  qed
  have "U ''ayuda'' \<in> set greetings" by (simp add: greetings_def)
  with gen[of "text"] gen[of "U ''tienda 810 ayuda''"] tienda_810 ayuda_present
  show ?thesis by simp
qed

theorem store_id_overrides_greeting_witness:
  "extract_tienda_id (U ''tienda 810 ayuda'') \<noteq> None
   \<and> \<not> is_greeting_or_help (U ''tienda 810 ayuda'')
   \<and> is_greeting_or_help (U ''ayuda'')"
  using store_id_overrides_greeting[of "U ''tienda 810 ayuda''"] tienda_810 ayuda_greeting
  by simp

lemma harina_tienda: "extract_tienda_id harina_query = Some 100"
  by (simp add: harina_query_def str_defs re_defs slack_defs)

lemma harina_clean: "clean_search_text harina_query = [191] @ U ''Harina en la ?''"
  by (simp add: harina_query_def str_defs re_defs slack_defs)

lemma harina_upper: "upper ([191] @ U ''Harina en la ?'') = [191] @ U ''HARINA EN LA ?''"
  by (simp add: str_defs)

text \<open>
  C9, as the code has it: on the question about the price of Harina in store 100 the
  store identifier is 100 and the search phrase is the text left after removing the store
  reference \<open>tienda 100\<close> and the filler phrase up to \<open>de la\<close>: the inverted question
  mark, \<open>Harina en la\<close> and the question mark, in the case of the message (the caller
  upper-cases it when it searches). For every text the phrase is absent when the text is
  empty or the cleaned, trimmed text has length 2 or less, and a phrase that is present
  is that cleaned text, of length above 2.
\<close>

theorem intent_parser_harina:
  "extract_tienda_id harina_query = Some 100
   \<and> extract_search_term harina_query = Some ([191] @ U ''Harina en la ?'')
   \<and> upper ([191] @ U ''Harina en la ?'') = [191] @ U ''HARINA EN LA ?''
   \<and> (extract_search_term text = Some s \<longrightarrow> s = clean_search_text text \<and> length s > 2)
   \<and> (text = [] \<or> length (clean_search_text text) \<le> 2 \<longrightarrow> extract_search_term text = None)"
proof -
  have a: "extract_search_term harina_query = Some ([191] @ U ''Harina en la ?'')"
    by (simp add: extract_search_term_def harina_clean Let_def) (simp add: harina_query_def U_def)
  have b: "extract_search_term text = Some s \<longrightarrow> s = clean_search_text text \<and> length s > 2"
    by (auto simp: extract_search_term_def Let_def split: if_splits)
  have c: "text = [] \<or> length (clean_search_text text) \<le> 2 \<longrightarrow> extract_search_term text = None"
    by (auto simp: extract_search_term_def Let_def)
  from harina_tienda a harina_upper b c show ?thesis by blast
qed

lemma short_clean: "clean_search_text short_query = [116, 233]"
  by (simp add: short_query_def str_defs re_defs slack_defs)

theorem intent_parser_harina_witness:
  "length (clean_search_text short_query) \<le> 2 \<and> extract_search_term short_query = None"
proof -
  have "length (clean_search_text short_query) \<le> 2" by (simp add: short_clean)
  with intent_parser_harina[of short_query] show ?thesis by blast
qed

text \<open>
  The claim C9 as stated fails: the search phrase extracted from the question is not
  HARINA.
\<close>

theorem extract_search_term_harina_counterexample:
  "extract_search_term harina_query = Some ([191] @ U ''Harina en la ?'')
   \<and> extract_search_term harina_query \<noteq> Some (U ''HARINA'')"
  by (simp add: extract_search_term_def harina_clean Let_def) (simp add: harina_query_def U_def)

end
